theory Spec2Isabelle
  imports Complex_Main
begin

section \<open>The presentation shell (src/manet\_analyzer\_gui.py)\<close>

text \<open>
  The class \<open>ProfessionalMANETGUI\<close> is embedded as a record of the attributes its
  methods read and write, and every method as a function from state to state. The
  analysis engine (\<open>MANETAnalyzer\<close>, imported from \<open>manet_analyzer\<close>) is a parameter:
  a record of the methods the shell calls, over an arbitrary type \<open>'an\<close> of analyzer
  states. A call of the engine may raise; the shell's \<open>try/except\<close> blocks are the
  branches on \<open>Raises\<close>.

  Left out of the state: the text of the summary, statistics and plot-information
  widgets, the progress bar, the session timestamp and \<open>analysis_results\<close>; nothing the
  methods below decide reads them. Messages are kept without their icons. The body of a
  worker thread is run where the thread is started.
\<close>

subsection \<open>Strings and paths\<close>

text \<open>\<open>os.path.basename\<close> and \<open>Path.name\<close>: the part after the last slash.\<close>

definition basename :: "string \<Rightarrow> string" where
  "basename p = rev (takeWhile (\<lambda>c. c \<noteq> CHR ''/'') (rev p))"

definition digit :: "nat \<Rightarrow> char" where
  "digit d = char_of (48 + d)"

text \<open>The decimal text of a count, as an f-string renders it.\<close>

function show_nat :: "nat \<Rightarrow> string" where
  "show_nat n = (if n < 10 then [digit n] else show_nat (n div 10) @ [digit (n mod 10)])"
  by pat_completeness auto
termination
  by (relation "measure id") auto

declare show_nat.simps [simp del]

subsection \<open>The environment of the shell\<close>

text \<open>
  What the operating system answers: \<open>os.path.getsize\<close> (\<open>None\<close> when it raises) and
  the paths \<open>Path(folder).glob("*.json")\<close> lists, as strings.
\<close>

record environment =
  getsize :: "string \<Rightarrow> nat option"
  glob_json :: "string \<Rightarrow> string list"

text \<open>
  The text \<open>get_file_size\<close> returns, by its three ranges; the rendering of the quotient
  with one decimal is not modelled, the constructor keeps the size in bytes.
\<close>

datatype file_size = SizeB nat | SizeKB nat | SizeMB nat | SizeNA

definition get_file_size :: "environment \<Rightarrow> string \<Rightarrow> file_size" where
  "get_file_size env file_path =
     (case getsize env file_path of
        None \<Rightarrow> SizeNA
      | Some sz \<Rightarrow>
          if sz < 1024 then SizeB sz
          else if sz < 1024 * 1024 then SizeKB sz
          else SizeMB sz)"

subsection \<open>The engine as a parameter\<close>

datatype 'a outcome = Returns 'a | Raises

text \<open>
  The methods of \<open>MANETAnalyzer\<close> the shell calls. Each takes the analyzer's state and
  gives back its outcome and the state after the call. \<open>analyzer_simulations\<close> is
  \<open>len(analyzer.simulations)\<close>. Plot and report files are paths.
\<close>

record 'an engine =
  analyzer_new :: "string \<Rightarrow> 'an outcome"
  analyzer_load_simulation :: "'an \<Rightarrow> string \<Rightarrow> bool outcome \<times> 'an"
  analyzer_simulations :: "'an \<Rightarrow> nat"
  analyzer_generate_performance_plots :: "'an \<Rightarrow> string list outcome \<times> 'an"
  analyzer_compare_simulations :: "'an \<Rightarrow> string list outcome \<times> 'an"
  analyzer_generate_report :: "'an \<Rightarrow> string \<Rightarrow> bool \<Rightarrow> string outcome \<times> 'an"
  analyzer_export_processed_data :: "'an \<Rightarrow> string outcome \<times> 'an"
  analyzer_get_summary_statistics :: "'an \<Rightarrow> unit outcome \<times> 'an"

text \<open>
  The calls the shell makes on the engine, in program order; a call on an analyzer
  records the state of the analyzer it is made on.
\<close>

datatype 'an call =
    Call_MANETAnalyzer string
  | Call_load_simulation 'an string
  | Call_generate_performance_plots 'an
  | Call_compare_simulations 'an
  | Call_generate_report 'an string bool
  | Call_export_processed_data 'an
  | Call_get_summary_statistics 'an

subsection \<open>The state of the shell\<close>

datatype row_status = Ready | Loading | Loaded | Failed

record tree_row =
  row_text :: string
  size_col :: file_size
  status_col :: row_status

record 'an gui =
  loaded_files :: "string list"
  file_tree :: "tree_row list"
  analyzer :: "'an option"
  output_dir :: string
  generate_plots :: bool
  generate_comparison :: bool
  generate_report :: bool
  export_data :: bool
  report_format :: string
  plot_listbox :: "string list"
  status :: "string \<times> string"
  log_text :: "string list"
  viz_text :: "string list"
  dialogs :: "(string \<times> string \<times> string) list"
  calls :: "'an call list"

text \<open>\<open>__init__\<close> and the initial values of the variables made by \<open>create_left_panel\<close>.\<close>

definition initial_gui :: "'an gui" where
  "initial_gui =
     \<lparr>loaded_files = [], file_tree = [], analyzer = None,
      output_dir = ''analysis_output'',
      generate_plots = True, generate_comparison = True,
      generate_report = True, export_data = True,
      report_format = ''html'', plot_listbox = [],
      status = (''Ready - Load simulation files to begin analysis'', ''info''),
      log_text = [], viz_text = [], dialogs = [], calls = []\<rparr>"

definition update_status :: "string \<Rightarrow> string \<Rightarrow> 'an gui \<Rightarrow> 'an gui" where
  "update_status message status_type s = s\<lparr>status := (message, status_type)\<rparr>"

definition log_message :: "string \<Rightarrow> 'an gui \<Rightarrow> 'an gui" where
  "log_message message s = s\<lparr>log_text := log_text s @ [message]\<rparr>"

definition viz_message :: "string \<Rightarrow> 'an gui \<Rightarrow> 'an gui" where
  "viz_message message s = s\<lparr>viz_text := viz_text s @ [message]\<rparr>"

text \<open>\<open>messagebox.showerror\<close>, \<open>showwarning\<close>: kind, title, message.\<close>

definition messagebox :: "string \<Rightarrow> string \<Rightarrow> string \<Rightarrow> 'an gui \<Rightarrow> 'an gui" where
  "messagebox kind title message s = s\<lparr>dialogs := dialogs s @ [(kind, title, message)]\<rparr>"

text \<open>\<open>file_tree.set(item, 'status', v)\<close>, the item given by its position.\<close>

definition tree_set :: "nat \<Rightarrow> row_status \<Rightarrow> 'an gui \<Rightarrow> 'an gui" where
  "tree_set item v s =
     s\<lparr>file_tree := (file_tree s)[item := (file_tree s ! item)\<lparr>status_col := v\<rparr>]\<rparr>"

subsection \<open>File management\<close>

text \<open>
  The loop of \<open>add_files\<close> over the paths the dialog returned; \<open>add_folder\<close> runs the
  same body over the folder's JSON files.
\<close>

fun add_paths :: "environment \<Rightarrow> string list \<Rightarrow> 'an gui \<times> nat \<Rightarrow> 'an gui \<times> nat" where
  "add_paths env [] (s, added_count) = (s, added_count)"
| "add_paths env (file_path # files) (s, added_count) =
     (if file_path \<notin> set (loaded_files s) then
        add_paths env files
          (s\<lparr>loaded_files := loaded_files s @ [file_path],
             file_tree := file_tree s @
               [\<lparr>row_text = basename file_path,
                 size_col = get_file_size env file_path,
                 status_col = Ready\<rparr>]\<rparr>,
           added_count + 1)
      else add_paths env files (s, added_count))"

definition add_files :: "environment \<Rightarrow> string list \<Rightarrow> 'an gui \<Rightarrow> 'an gui" where
  "add_files env files s =
     (case add_paths env files (s, 0) of
        (s', added_count) \<Rightarrow>
          if added_count > 0
          then update_status (''Added '' @ show_nat added_count @ '' files'') ''success'' s'
          else update_status ''No new files added'' ''warning'' s')"

definition add_folder :: "environment \<Rightarrow> string \<Rightarrow> 'an gui \<Rightarrow> 'an gui" where
  "add_folder env folder s =
     (if folder \<noteq> [] then
        (case add_paths env (glob_json env folder) (s, 0) of
           (s', added_count) \<Rightarrow>
             if added_count > 0
             then update_status
                    (''Added '' @ show_nat added_count @ '' files from folder'') ''success'' s'
             else update_status ''No new JSON files found in folder'' ''warning'' s')
      else s)"

text \<open>\<open>clear_files\<close>; \<open>confirmed\<close> is the answer to the confirmation dialog.\<close>

definition clear_files :: "bool \<Rightarrow> 'an gui \<Rightarrow> 'an gui" where
  "clear_files confirmed s =
     (if loaded_files s \<noteq> [] then
        (if confirmed then
           update_status ''All files cleared'' ''info''
             (s\<lparr>loaded_files := [], file_tree := [], analyzer := None\<rparr>)
         else s)
      else update_status ''No files to clear'' ''info'' s)"

definition browse_output_dir :: "string \<Rightarrow> 'an gui \<Rightarrow> 'an gui" where
  "browse_output_dir directory s =
     (if directory \<noteq> [] then
        update_status (''Output directory set to: '' @ basename directory) ''info''
          (s\<lparr>output_dir := directory\<rparr>)
      else s)"

subsection \<open>Calling the engine\<close>

text \<open>
  A method call on \<open>self.analyzer\<close>: on \<open>None\<close> the attribute access raises; otherwise
  the call is recorded and the analyzer's state replaced by the state after the call.
\<close>

definition call_engine ::
  "('an \<Rightarrow> 'r outcome \<times> 'an) \<Rightarrow> ('an \<Rightarrow> 'an call) \<Rightarrow> 'an gui \<Rightarrow> 'r outcome \<times> 'an gui" where
  "call_engine method event s =
     (case analyzer s of
        None \<Rightarrow> (Raises, s)
      | Some an \<Rightarrow>
          (case method an of
             (r, an') \<Rightarrow> (r, s\<lparr>analyzer := Some an', calls := calls s @ [event an]\<rparr>)))"

text \<open>\<open>len(self.analyzer.simulations)\<close>.\<close>

definition simulations_count :: "'an engine \<Rightarrow> 'an gui \<Rightarrow> nat outcome" where
  "simulations_count eng s =
     (case analyzer s of
        None \<Rightarrow> Raises
      | Some an \<Rightarrow> Returns (analyzer_simulations eng an))"

subsection \<open>initialize\_analyzer\<close>

text \<open>
  The loop over \<open>zip(self.loaded_files, self.file_tree.get_children())\<close>, with its
  locals \<open>loaded_count\<close> and \<open>failed_files\<close>. The first component of the result says
  whether the loop ran to its end; it is \<open>False\<close> when a call raised, which leaves the
  loop for the handler of \<open>initialize_analyzer\<close>.
\<close>

fun load_files_loop ::
  "'an engine \<Rightarrow> (string \<times> nat) list \<Rightarrow> 'an gui \<times> nat \<times> string list
     \<Rightarrow> bool \<times> 'an gui \<times> nat \<times> string list" where
  "load_files_loop eng [] (s, loaded_count, failed_files) =
     (True, s, loaded_count, failed_files)"
| "load_files_loop eng ((file_path, item) # rest) (s, loaded_count, failed_files) =
     (case call_engine (\<lambda>an. analyzer_load_simulation eng an file_path)
             (\<lambda>an. Call_load_simulation an file_path) (tree_set item Loading s) of
        (Raises, s') \<Rightarrow> (False, s', loaded_count, failed_files)
      | (Returns success, s') \<Rightarrow>
          if success then
            load_files_loop eng rest (tree_set item Loaded s', loaded_count + 1, failed_files)
          else
            load_files_loop eng rest
              (tree_set item Failed s', loaded_count, failed_files @ [basename file_path]))"

definition join :: "string \<Rightarrow> string list \<Rightarrow> string" where
  "join sep xs = (case xs of [] \<Rightarrow> [] | x # ys \<Rightarrow> x @ concat (map (\<lambda>y. sep @ y) ys))"

definition initialize_failed :: "'an gui \<Rightarrow> 'an gui" where
  "initialize_failed s =
     messagebox ''error'' ''Error'' ''Failed to initialize analyzer''
       (update_status ''Analyzer initialization failed'' ''error'' s)"

definition initialize_analyzer :: "'an engine \<Rightarrow> 'an gui \<Rightarrow> bool \<times> 'an gui" where
  "initialize_analyzer eng s =
     (if loaded_files s = [] then
        (False,
         messagebox ''error'' ''Error'' ''No files loaded. Please add simulation files first.''
           (update_status ''No files loaded'' ''error'' s))
      else
        (let s1 = (update_status ''Initializing analyzer...'' ''working'' s)
                    \<lparr>calls := calls s @ [Call_MANETAnalyzer (output_dir s)]\<rparr>
         in case analyzer_new eng (output_dir s) of
              Raises \<Rightarrow> (False, initialize_failed s1)
            | Returns an \<Rightarrow>
                (case load_files_loop eng
                        (zip (loaded_files s) [0..<length (file_tree s)])
                        (s1\<lparr>analyzer := Some an\<rparr>, 0, []) of
                   (False, s2, loaded_count, failed_files) \<Rightarrow> (False, initialize_failed s2)
                 | (True, s2, loaded_count, failed_files) \<Rightarrow>
                     (case simulations_count eng s2 of
                        Raises \<Rightarrow> (False, initialize_failed s2)
                      | Returns n \<Rightarrow>
                          if n = 0 then
                            (False,
                             messagebox ''error'' ''Error''
                               ''No valid simulation files could be loaded.''
                               (update_status ''No valid simulations loaded'' ''error'' s2))
                          else
                            (let s3 = log_message
                                        (''Loaded: '' @ show_nat loaded_count @ '' simulations'')
                                        (log_message ''Analyzer initialized successfully'' s2);
                                 s4 = (if failed_files \<noteq> [] then
                                         log_message
                                           (''Failed to load: '' @ join '', '' failed_files) s3
                                       else s3)
                             in (True,
                                 update_status
                                   (''Analyzer ready - '' @ show_nat loaded_count @
                                    '' simulations loaded'') ''success'' s4))))))"

subsection \<open>The worker threads\<close>

text \<open>
  In the logs, the rulers and the time stamp are left out, and a message that quotes an
  exception keeps its fixed part.
\<close>

definition clear_plot_list :: "'an gui \<Rightarrow> 'an gui" where
  "clear_plot_list s = s\<lparr>plot_listbox := []\<rparr>"

definition clear_all_results :: "'an gui \<Rightarrow> 'an gui" where
  "clear_all_results s = clear_plot_list (s\<lparr>log_text := [], viz_text := []\<rparr>)"

text \<open>The loop that only fills the plot list, and the one that also logs each name.\<close>

definition insert_plots :: "string \<Rightarrow> string list \<Rightarrow> 'an gui \<Rightarrow> 'an gui" where
  "insert_plots prefix files s =
     s\<lparr>plot_listbox := plot_listbox s @ map (\<lambda>f. prefix @ basename f) files\<rparr>"

definition list_plots :: "string \<Rightarrow> string list \<Rightarrow> 'an gui \<Rightarrow> 'an gui" where
  "list_plots prefix files s =
     fold (\<lambda>f s'. viz_message (''   '' @ basename f)
                    (s'\<lparr>plot_listbox := plot_listbox s' @ [prefix @ basename f]\<rparr>)) files s"

definition full_analysis_plots :: "'an engine \<Rightarrow> 'an gui \<Rightarrow> 'an gui" where
  "full_analysis_plots eng s =
     (case call_engine (analyzer_generate_performance_plots eng) Call_generate_performance_plots
             (log_message ''Generating performance plots...''
                (update_status ''Generating performance plots...'' ''working'' s)) of
        (Raises, s') \<Rightarrow> log_message ''Plot generation failed'' s'
      | (Returns plot_files, s') \<Rightarrow>
          (let s'' = log_message ''Performance plots generated successfully'' s'
           in if plot_files \<noteq> [] then
                viz_message ''Performance plots generated and added to gallery''
                  (insert_plots [] plot_files s'')
              else s''))"

definition full_analysis_comparison :: "'an engine \<Rightarrow> 'an gui \<Rightarrow> 'an gui outcome" where
  "full_analysis_comparison eng s =
     (case simulations_count eng s of
        Raises \<Rightarrow> Raises
      | Returns n \<Rightarrow>
          Returns
            (if n > 1 then
               (case call_engine (analyzer_compare_simulations eng) Call_compare_simulations
                       (log_message ''Generating comparison analysis...''
                          (update_status ''Generating comparison analysis...'' ''working'' s)) of
                  (Raises, s') \<Rightarrow> log_message ''Comparison analysis failed'' s'
                | (Returns comparison_files, s') \<Rightarrow>
                    (let s'' = log_message ''Comparison analysis completed'' s'
                     in if comparison_files \<noteq> [] then
                          viz_message ''Comparison plots generated and added to gallery''
                            (insert_plots ''[COMP] '' comparison_files s'')
                        else s''))
             else log_message ''Comparison requires at least 2 simulations'' s))"

definition full_analysis_report :: "'an engine \<Rightarrow> 'an gui \<Rightarrow> 'an gui" where
  "full_analysis_report eng s =
     (case call_engine
             (\<lambda>an. analyzer_generate_report eng an (report_format s) (generate_plots s))
             (\<lambda>an. Call_generate_report an (report_format s) (generate_plots s))
             (log_message ''Generating analysis report...''
                (update_status ''Generating detailed report...'' ''working'' s)) of
        (Raises, s') \<Rightarrow> log_message ''Report generation failed'' s'
      | (Returns report_file, s') \<Rightarrow>
          log_message (''Report generated: '' @ basename report_file) s')"

definition full_analysis_export :: "'an engine \<Rightarrow> 'an gui \<Rightarrow> 'an gui" where
  "full_analysis_export eng s =
     (case call_engine (analyzer_export_processed_data eng) Call_export_processed_data
             (log_message ''Exporting processed data...''
                (update_status ''Exporting processed data...'' ''working'' s)) of
        (Raises, s') \<Rightarrow> log_message ''Data export failed'' s'
      | (Returns data_file, s') \<Rightarrow>
          log_message (''Data exported: '' @ basename data_file) s')"

text \<open>
  \<open>generate_comprehensive_summary\<close>: the call of \<open>get_summary_statistics\<close>; what it
  writes goes to the summary and statistics widgets, and its own handler catches a
  raise.
\<close>

definition generate_comprehensive_summary :: "'an engine \<Rightarrow> 'an gui \<Rightarrow> 'an gui" where
  "generate_comprehensive_summary eng s =
     snd (call_engine (analyzer_get_summary_statistics eng) Call_get_summary_statistics s)"

definition run_full_analysis_thread :: "'an engine \<Rightarrow> 'an gui \<Rightarrow> 'an gui" where
  "run_full_analysis_thread eng s =
     (let s1 = log_message ''COMPREHENSIVE ANALYSIS STARTED''
                 (update_status ''Running comprehensive analysis...'' ''working'' s);
          s2 = (if generate_plots s1 then full_analysis_plots eng s1 else s1)
      in case (if generate_comparison s2 then full_analysis_comparison eng s2
               else Returns s2) of
           Raises \<Rightarrow>
             update_status ''Analysis failed - check log for details'' ''error''
               (log_message ''CRITICAL ERROR: Analysis failed'' s2)
         | Returns s3 \<Rightarrow>
             (let s4 = (if generate_report s3 then full_analysis_report eng s3 else s3);
                  s5 = (if export_data s4 then full_analysis_export eng s4 else s4);
                  s6 = generate_comprehensive_summary eng
                         (update_status ''Generating summary statistics...'' ''working'' s5)
              in update_status ''Analysis completed successfully! Check results tabs.''
                   ''success'' (log_message ''ANALYSIS COMPLETED SUCCESSFULLY'' s6)))"

definition generate_performance_plots_thread :: "'an engine \<Rightarrow> 'an gui \<Rightarrow> 'an gui" where
  "generate_performance_plots_thread eng s =
     (case call_engine (analyzer_generate_performance_plots eng) Call_generate_performance_plots
             (viz_message ''Starting performance plot generation...'' s) of
        (Raises, s') \<Rightarrow>
          update_status ''Plot generation failed'' ''error''
            (viz_message ''Performance plot generation failed'' s')
      | (Returns plot_files, s') \<Rightarrow>
          update_status ''Performance plots generated'' ''success''
            (if plot_files \<noteq> [] then
               list_plots [] plot_files
                 (viz_message ''Performance plots generated successfully!'' s')
             else viz_message ''No plot files were generated'' s'))"

definition generate_comparison_plots_thread :: "'an engine \<Rightarrow> 'an gui \<Rightarrow> 'an gui" where
  "generate_comparison_plots_thread eng s =
     (case call_engine (analyzer_compare_simulations eng) Call_compare_simulations
             (viz_message ''Starting comparison plot generation...'' s) of
        (Raises, s') \<Rightarrow>
          update_status ''Comparison plot generation failed'' ''error''
            (viz_message ''Comparison plot generation failed'' s')
      | (Returns comparison_files, s') \<Rightarrow>
          update_status ''Comparison plots generated'' ''success''
            (if comparison_files \<noteq> [] then
               list_plots ''[COMP] '' comparison_files
                 (viz_message ''Comparison plots generated successfully!'' s')
             else viz_message ''No comparison files were generated'' s'))"

definition plot_generation_failed :: "'an gui \<Rightarrow> 'an gui" where
  "plot_generation_failed s =
     update_status ''Plot generation failed'' ''error''
       (viz_message ''CRITICAL ERROR: Plot generation failed'' s)"

definition all_plots_summary :: "'an gui \<Rightarrow> 'an gui" where
  "all_plots_summary s =
     (let total_plots = length (plot_listbox s);
          s1 = viz_message (''Plots saved to: '' @ output_dir s)
                 (viz_message (''Total plots generated: '' @ show_nat total_plots)
                    (viz_message ''Plot generation completed!'' s));
          s2 = (if total_plots > 0 then
                  viz_message ''   Use 'View Plot Gallery' for easy browsing''
                    (viz_message ''   Use 'Open Plots Folder' to view actual files''
                       (viz_message ''   Select a plot from the list to view details''
                          (viz_message ''Tips:'' s1)))
                else s1)
      in update_status
           (''Plot generation completed - '' @ show_nat total_plots @ '' plots generated'')
           ''success'' s2)"

definition generate_all_plots_thread :: "'an engine \<Rightarrow> 'an gui \<Rightarrow> 'an gui" where
  "generate_all_plots_thread eng s =
     (let s1 = viz_message ''Generating performance plots...''
                 (viz_message ''PLOT GENERATION SESSION STARTED''
                    ((update_status ''Generating all visualization plots...'' ''working'' s)
                       \<lparr>viz_text := []\<rparr>));
          s2 = (case call_engine (analyzer_generate_performance_plots eng)
                       Call_generate_performance_plots s1 of
                  (Raises, s') \<Rightarrow> viz_message ''Performance plot generation failed'' s'
                | (Returns plot_files, s') \<Rightarrow>
                    if plot_files \<noteq> [] then
                      list_plots [] plot_files
                        (viz_message ''Performance plots generated successfully:'' s')
                    else viz_message ''No performance plot files generated'' s')
      in case simulations_count eng s2 of
           Raises \<Rightarrow> plot_generation_failed s2
         | Returns n \<Rightarrow>
             all_plots_summary
               (if n > 1 then
                  (case call_engine (analyzer_compare_simulations eng) Call_compare_simulations
                          (viz_message ''Generating comparison plots...'' s2) of
                     (Raises, s') \<Rightarrow> viz_message ''Comparison plot generation failed'' s'
                   | (Returns comparison_files, s') \<Rightarrow>
                       if comparison_files \<noteq> [] then
                         list_plots ''[COMP] '' comparison_files
                           (viz_message ''Comparison plots generated successfully:'' s')
                       else viz_message ''No comparison plot files generated'' s')
                else viz_message ''Comparison plots require multiple simulations'' s2))"

text \<open>
  \<open>_generate_plots_thread\<close>, which no method starts. Its engine calls have no handler of
  their own: a raise ends the body in the outer handler.
\<close>

definition generate_plots_thread :: "'an engine \<Rightarrow> 'an gui \<Rightarrow> 'an gui" where
  "generate_plots_thread eng s =
     (let s1 = viz_message ''Generating performance plots...''
                 (viz_message ''PLOT GENERATION LOG''
                    ((update_status ''Generating visualization plots...'' ''working'' s)
                       \<lparr>viz_text := []\<rparr>))
      in case call_engine (analyzer_generate_performance_plots eng)
                Call_generate_performance_plots s1 of
           (Raises, s') \<Rightarrow>
             update_status ''Plot generation failed'' ''error''
               (viz_message ''Plot generation failed'' s')
         | (Returns plot_files, s') \<Rightarrow>
             (let s2 = (if plot_files \<noteq> [] then
                          fold (\<lambda>f. viz_message (''   '' @ f)) plot_files
                            (viz_message ''Performance plots generated:'' s')
                        else s')
              in case simulations_count eng s2 of
                   Raises \<Rightarrow>
                     update_status ''Plot generation failed'' ''error''
                       (viz_message ''Plot generation failed'' s2)
                 | Returns n \<Rightarrow>
                     (case (if n > 1 then
                              (case call_engine (analyzer_compare_simulations eng)
                                      Call_compare_simulations
                                      (viz_message ''Generating comparison plots...'' s2) of
                                 (Raises, s3) \<Rightarrow> (Raises, s3)
                               | (Returns comparison_files, s3) \<Rightarrow>
                                   (Returns (),
                                    if comparison_files \<noteq> [] then
                                      fold (\<lambda>f. viz_message (''   '' @ f)) comparison_files
                                        (viz_message ''Comparison plots generated:'' s3)
                                    else s3))
                            else
                              (Returns (),
                               viz_message ''Comparison plots require multiple simulations'' s2)) of
                        (Raises, s4) \<Rightarrow>
                          update_status ''Plot generation failed'' ''error''
                            (viz_message ''Plot generation failed'' s4)
                      | (Returns u, s4) \<Rightarrow>
                          update_status ''Plot generation completed successfully'' ''success''
                            (viz_message (''Plots saved to: '' @ output_dir s4)
                               (viz_message ''Plot generation completed successfully!'' s4)))))"

subsection \<open>The analysis actions\<close>

definition run_full_analysis :: "'an engine \<Rightarrow> 'an gui \<Rightarrow> 'an gui" where
  "run_full_analysis eng s =
     (case initialize_analyzer eng s of
        (False, s') \<Rightarrow> s'
      | (True, s') \<Rightarrow> run_full_analysis_thread eng (clear_all_results s'))"

definition show_quick_stats :: "'an engine \<Rightarrow> 'an gui \<Rightarrow> 'an gui" where
  "show_quick_stats eng s =
     (case initialize_analyzer eng s of
        (False, s') \<Rightarrow> s'
      | (True, s') \<Rightarrow>
          (case call_engine (analyzer_get_summary_statistics eng) Call_get_summary_statistics
                  (update_status ''Calculating quick statistics...'' ''working'' s') of
             (Raises, s'') \<Rightarrow> update_status ''Statistics calculation failed'' ''error'' s''
           | (Returns u, s'') \<Rightarrow> update_status ''Quick statistics completed'' ''success'' s''))"

definition generate_performance_plots :: "'an engine \<Rightarrow> 'an gui \<Rightarrow> 'an gui" where
  "generate_performance_plots eng s =
     (case initialize_analyzer eng s of
        (False, s') \<Rightarrow> s'
      | (True, s') \<Rightarrow>
          generate_performance_plots_thread eng
            (update_status ''Generating performance plots...'' ''working'' s'))"

text \<open>
  \<open>generate_comparison_plots\<close>. Were the length to raise, the exception would leave the
  callback with nothing further done.
\<close>

definition generate_comparison_plots :: "'an engine \<Rightarrow> 'an gui \<Rightarrow> 'an gui" where
  "generate_comparison_plots eng s =
     (case initialize_analyzer eng s of
        (False, s') \<Rightarrow> s'
      | (True, s') \<Rightarrow>
          (case simulations_count eng s' of
             Raises \<Rightarrow> s'
           | Returns n \<Rightarrow>
               if n < 2 then
                 messagebox ''warning'' ''Warning''
                   ''Comparison plots require at least 2 simulations.'' s'
               else
                 generate_comparison_plots_thread eng
                   (update_status ''Generating comparison plots...'' ''working'' s')))"

definition generate_plots_only :: "'an engine \<Rightarrow> 'an gui \<Rightarrow> 'an gui" where
  "generate_plots_only eng s =
     (case initialize_analyzer eng s of
        (False, s') \<Rightarrow> s'
      | (True, s') \<Rightarrow> generate_all_plots_thread eng (clear_plot_list s'))"

datatype action =
    Run_full_analysis
  | Show_quick_stats
  | Generate_plots_only
  | Generate_performance_plots
  | Generate_comparison_plots

fun perform :: "'an engine \<Rightarrow> action \<Rightarrow> 'an gui \<Rightarrow> 'an gui" where
  "perform eng Run_full_analysis = run_full_analysis eng"
| "perform eng Show_quick_stats = show_quick_stats eng"
| "perform eng Generate_plots_only = generate_plots_only eng"
| "perform eng Generate_performance_plots = generate_performance_plots eng"
| "perform eng Generate_comparison_plots = generate_comparison_plots eng"

subsection \<open>What the user can do\<close>

text \<open>
  The controls of the window: the three file buttons with what their dialogs return,
  the output directory (browsed or typed), the four check boxes, the read-only format
  selector with its three values, the button that clears the results, and the five
  analysis actions.
\<close>

definition format_values :: "string list" where
  "format_values = [''html'', ''markdown'', ''txt'']"

definition select_report_format :: "string \<Rightarrow> 'an gui \<Rightarrow> 'an gui" where
  "select_report_format v s = (if v \<in> set format_values then s\<lparr>report_format := v\<rparr> else s)"

datatype gui_op =
    Add_files "string list"
  | Add_folder string
  | Clear_files bool
  | Browse_output_dir string
  | Type_output_dir string
  | Check_generate_plots bool
  | Check_generate_comparison bool
  | Check_generate_report bool
  | Check_export_data bool
  | Select_report_format string
  | Clear_results
  | Act action

fun apply_op :: "'an engine \<Rightarrow> environment \<Rightarrow> gui_op \<Rightarrow> 'an gui \<Rightarrow> 'an gui" where
  "apply_op eng env (Add_files files) s = add_files env files s"
| "apply_op eng env (Add_folder folder) s = add_folder env folder s"
| "apply_op eng env (Clear_files confirmed) s = clear_files confirmed s"
| "apply_op eng env (Browse_output_dir directory) s = browse_output_dir directory s"
| "apply_op eng env (Type_output_dir directory) s = s\<lparr>output_dir := directory\<rparr>"
| "apply_op eng env (Check_generate_plots b) s = s\<lparr>generate_plots := b\<rparr>"
| "apply_op eng env (Check_generate_comparison b) s = s\<lparr>generate_comparison := b\<rparr>"
| "apply_op eng env (Check_generate_report b) s = s\<lparr>generate_report := b\<rparr>"
| "apply_op eng env (Check_export_data b) s = s\<lparr>export_data := b\<rparr>"
| "apply_op eng env (Select_report_format v) s = select_report_format v s"
| "apply_op eng env Clear_results s = clear_all_results s"
| "apply_op eng env (Act a) s = perform eng a s"

definition run_ops :: "'an engine \<Rightarrow> environment \<Rightarrow> gui_op list \<Rightarrow> 'an gui \<Rightarrow> 'an gui" where
  "run_ops eng env ops s = fold (apply_op eng env) ops s"

section \<open>The engine as the specification describes it\<close>

text \<open>
  \<open>manet_analyzer.py\<close>, which holds \<open>MANETAnalyzer\<close>, is not among the sources. The
  definitions of this section follow the words of the specification (sections 3, 4.4
  and 7); each says so. A mean is taken as the real number it denotes: rounding is not
  modelled.
\<close>

subsection \<open>Data model\<close>

text \<open>Modelled from the spec: the scalar values of a configuration (section 3); the
  engine and its types are missing from the sources.\<close>

datatype scalar = Number real | Text string

text \<open>Modelled from the spec: MetricStatistics of section 3.\<close>

record metric_statistics =
  count :: nat
  mean :: real
  std :: real
  min_value :: real
  max_value :: real

text \<open>Modelled from the spec: StatisticsError of section 7.\<close>

datatype statistics_error = NonFinite

text \<open>Modelled from the spec: what \<open>summarize\<close> gives for one metric: its statistics,
  undefined when the count is zero (section 3), or the failure for that metric
  (section 4.3).\<close>

datatype metric_summary =
    Statistics metric_statistics
  | Undefined_statistics
  | Statistics_failed statistics_error

text \<open>Modelled from the spec: SimulationSummary of section 3.\<close>

record simulation_summary =
  summary_label :: string
  summary_configuration :: "(string \<times> scalar) list"
  data_points :: nat
  summary_metrics :: "(string \<times> metric_summary) list"

subsection \<open>Comparison Engine\<close>

text \<open>Modelled from the spec: ComparisonError of section 7.\<close>

datatype comparison_error = InsufficientData

text \<open>Modelled from the spec: a percentage difference, or the explicit value that
  section 4.4 asks for when the baseline mean is zero.\<close>

datatype relative_difference =
    Percent real
  | Plus_infinity
  | Minus_infinity
  | Undefined_difference

text \<open>Modelled from the spec: \<open>(mean_i - mean_baseline) / mean_baseline * 100\<close>, and for
  a zero baseline the value the quotient has in floating point.\<close>

definition relative_to :: "real \<Rightarrow> real \<Rightarrow> relative_difference" where
  "relative_to baseline m =
     (if baseline \<noteq> 0 then Percent ((m - baseline) / baseline * 100)
      else if m > 0 then Plus_infinity
      else if m < 0 then Minus_infinity
      else Undefined_difference)"

text \<open>Modelled from the spec: the comparison of one metric, and ComparisonResult of
  section 3 with the metrics left out of it.\<close>

record metric_comparison =
  ranking :: "string list"
  relative_differences :: "(string \<times> relative_difference) list"

record comparison_result =
  compared :: "(string \<times> metric_comparison) list"
  skipped :: "string list"

text \<open>Modelled from the spec: the mean a summary holds for a metric, if it holds
  statistics for it.\<close>

definition mean_of :: "simulation_summary \<Rightarrow> string \<Rightarrow> real option" where
  "mean_of s m =
     (case map_of (summary_metrics s) m of
        Some (Statistics st) \<Rightarrow> Some (mean st)
      | Some Undefined_statistics \<Rightarrow> None
      | Some (Statistics_failed e) \<Rightarrow> None
      | None \<Rightarrow> None)"

text \<open>Modelled from the spec: the metrics present in all summaries (section 4.4), in
  the order of the first summary.\<close>

definition common_metrics :: "simulation_summary list \<Rightarrow> string list" where
  "common_metrics ss =
     (case ss of
        [] \<Rightarrow> []
      | s # rest \<Rightarrow>
          filter (\<lambda>m. list_all (\<lambda>t. mean_of t m \<noteq> None) ss) (map fst (summary_metrics s)))"

text \<open>Modelled from the spec: the labels with their means for one metric, in the order
  of the summaries.\<close>

definition means_for :: "string \<Rightarrow> simulation_summary list \<Rightarrow> (string \<times> real) list" where
  "means_for m ss =
     List.map_filter (\<lambda>s. map_option (\<lambda>x. (summary_label s, x)) (mean_of s m)) ss"

text \<open>Modelled from the spec: ranking by mean, descending (section 8), by a stable sort
  so that ties keep the original order; differences relative to the first label.\<close>

definition compare_metric :: "string \<Rightarrow> simulation_summary list \<Rightarrow> metric_comparison" where
  "compare_metric m ss =
     (let pairs = means_for m ss
      in \<lparr>ranking = map fst (sort_key (\<lambda>(l, x). - x) pairs),
          relative_differences =
            (case pairs of
               [] \<Rightarrow> []
             | (l0, baseline) # rest \<Rightarrow> map (\<lambda>(l, x). (l, relative_to baseline x)) pairs)\<rparr>)"

text \<open>Modelled from the spec: \<open>compare\<close> of section 4.4.\<close>

definition compare :: "simulation_summary list \<Rightarrow> comparison_error + comparison_result" where
  "compare ss =
     (if length ss < 2 then Inl InsufficientData
      else
        Inr \<lparr>compared = map (\<lambda>m. (m, compare_metric m ss)) (common_metrics ss),
             skipped = filter (\<lambda>m. m \<notin> set (common_metrics ss))
                         (remdups (concat (map (\<lambda>s. map fst (summary_metrics s)) ss)))\<rparr>)"

section \<open>Notions used in the statements\<close>

text \<open>
  The invariant of the file list and the file tree, what an action leaves as it found
  it, the calls an action may add to the trace, the outcomes the engine gives for a
  batch of loads, and a sample engine and environment on which each theorem is run.
\<close>


definition files_inv :: "'an gui \<Rightarrow> bool" where
  "files_inv s = (distinct (loaded_files s) \<and> length (file_tree s) = length (loaded_files s))"

definition settings_kept :: "'an gui \<Rightarrow> 'an gui \<Rightarrow> bool" where
  "settings_kept s s' =
     (loaded_files s' = loaded_files s \<and> length (file_tree s') = length (file_tree s) \<and>
      output_dir s' = output_dir s \<and> report_format s' = report_format s \<and>
      generate_plots s' = generate_plots s \<and> generate_comparison s' = generate_comparison s \<and>
      generate_report s' = generate_report s \<and> export_data s' = export_data s)"

fun guarded_call :: "'an engine \<Rightarrow> string \<Rightarrow> bool \<Rightarrow> 'an call \<Rightarrow> bool" where
  "guarded_call eng fmt plots (Call_compare_simulations an) = (2 \<le> analyzer_simulations eng an)"
| "guarded_call eng fmt plots (Call_generate_report an fmt' plots') = (fmt' = fmt \<and> plots' = plots)"
| "guarded_call eng fmt plots c = True"

definition extends :: "'an engine \<Rightarrow> 'an gui \<Rightarrow> 'an gui \<Rightarrow> bool" where
  "extends eng s s' =
     (settings_kept s s' \<and>
      (\<exists>cs. calls s' = calls s @ cs \<and>
            list_all (guarded_call eng (report_format s) (generate_plots s)) cs))"

fun batch_outcomes :: "'an engine \<Rightarrow> 'an \<Rightarrow> string list \<Rightarrow> bool list option" where
  "batch_outcomes eng an [] = Some []"
| "batch_outcomes eng an (file_path # files) =
     (case analyzer_load_simulation eng an file_path of
        (Raises, an') \<Rightarrow> None
      | (Returns success, an') \<Rightarrow> map_option ((#) success) (batch_outcomes eng an' files))"

fun load_calls :: "'an engine \<Rightarrow> 'an \<Rightarrow> string list \<Rightarrow> 'an call list" where
  "load_calls eng an [] = []"
| "load_calls eng an (file_path # files) =
     Call_load_simulation an file_path #
     load_calls eng (snd (analyzer_load_simulation eng an file_path)) files"

fun analyzer_after :: "'an engine \<Rightarrow> 'an \<Rightarrow> string list \<Rightarrow> 'an" where
  "analyzer_after eng an [] = an"
| "analyzer_after eng an (file_path # files) =
     analyzer_after eng (snd (analyzer_load_simulation eng an file_path)) files"

definition loaded_status :: "bool \<Rightarrow> row_status" where
  "loaded_status success = (if success then Loaded else Failed)"

fun compare_ok :: "'an engine \<Rightarrow> 'an call \<Rightarrow> bool" where
  "compare_ok eng (Call_compare_simulations an) = (2 \<le> analyzer_simulations eng an)"
| "compare_ok eng c = True"

fun report_ok :: "'an call \<Rightarrow> bool" where
  "report_ok (Call_generate_report an fmt plots) = (fmt \<in> set format_values)"
| "report_ok c = True"

definition session_inv :: "'an engine \<Rightarrow> 'an gui \<Rightarrow> bool" where
  "session_inv eng s =
     (files_inv s \<and> report_format s \<in> set format_values \<and>
      list_all (compare_ok eng) (calls s) \<and> list_all report_ok (calls s))"

definition example_engine :: "string list engine" where
  "example_engine =
     \<lparr>analyzer_new = (\<lambda>d. Returns []),
      analyzer_load_simulation =
        (\<lambda>an p. if p = ''bad.json'' then (Returns False, an) else (Returns True, an @ [p])),
      analyzer_simulations = length,
      analyzer_generate_performance_plots = (\<lambda>an. (Returns [''out/performance.png''], an)),
      analyzer_compare_simulations = (\<lambda>an. (Returns [''out/comparison.png''], an)),
      analyzer_generate_report = (\<lambda>an fmt plots. (Returns (''out/report.'' @ fmt), an)),
      analyzer_export_processed_data = (\<lambda>an. (Returns ''out/data.json'', an)),
      analyzer_get_summary_statistics = (\<lambda>an. (Returns (), an))\<rparr>"

definition example_environment :: environment where
  "example_environment =
     \<lparr>getsize = (\<lambda>p. Some 2048), glob_json = (\<lambda>d. [d @ ''/a.json''])\<rparr>"

definition example_files :: "string list gui" where
  "example_files =
     add_files example_environment [''a.json'', ''bad.json'', ''c.json''] initial_gui"

definition example_single :: "string list gui" where
  "example_single = add_files example_environment [''a.json''] initial_gui"

text \<open>A second sample engine: its \<open>load_simulation\<close> raises on \<open>bad.json\<close>.\<close>

definition raising_engine :: "string list engine" where
  "raising_engine =
     example_engine\<lparr>analyzer_load_simulation :=
       (\<lambda>an p. if p = ''bad.json'' then (Raises, an) else (Returns True, an @ [p]))\<rparr>"

text \<open>A sample summary: one metric, \<open>throughput\<close>, with the given mean.\<close>

definition example_summary :: "string \<Rightarrow> real \<Rightarrow> simulation_summary" where
  "example_summary l m =
     \<lparr>summary_label = l, summary_configuration = [(''num_nodes'', Number 20)],
      data_points = 3,
      summary_metrics =
        [(''throughput'',
          Statistics \<lparr>count = 3, mean = m, std = 0, min_value = m, max_value = m\<rparr>)]\<rparr>"

section \<open>Properties of the shell\<close>

named_theorems shell_defs

lemmas [shell_defs] = update_status_def log_message_def viz_message_def messagebox_def
  tree_set_def clear_plot_list_def clear_all_results_def insert_plots_def

lemma helper_fields [simp]:
  "loaded_files (update_status m t s) = loaded_files s"
  "file_tree (update_status m t s) = file_tree s"
  "analyzer (update_status m t s) = analyzer s"
  "output_dir (update_status m t s) = output_dir s"
  "generate_plots (update_status m t s) = generate_plots s"
  "generate_comparison (update_status m t s) = generate_comparison s"
  "generate_report (update_status m t s) = generate_report s"
  "export_data (update_status m t s) = export_data s"
  "report_format (update_status m t s) = report_format s"
  "plot_listbox (update_status m t s) = plot_listbox s"
  "log_text (update_status m t s) = log_text s"
  "viz_text (update_status m t s) = viz_text s"
  "dialogs (update_status m t s) = dialogs s"
  "calls (update_status m t s) = calls s"
  "loaded_files (log_message m s) = loaded_files s"
  "file_tree (log_message m s) = file_tree s"
  "analyzer (log_message m s) = analyzer s"
  "output_dir (log_message m s) = output_dir s"
  "generate_plots (log_message m s) = generate_plots s"
  "generate_comparison (log_message m s) = generate_comparison s"
  "generate_report (log_message m s) = generate_report s"
  "export_data (log_message m s) = export_data s"
  "report_format (log_message m s) = report_format s"
  "plot_listbox (log_message m s) = plot_listbox s"
  "status (log_message m s) = status s"
  "viz_text (log_message m s) = viz_text s"
  "dialogs (log_message m s) = dialogs s"
  "calls (log_message m s) = calls s"
  "loaded_files (viz_message m s) = loaded_files s"
  "file_tree (viz_message m s) = file_tree s"
  "analyzer (viz_message m s) = analyzer s"
  "output_dir (viz_message m s) = output_dir s"
  "generate_plots (viz_message m s) = generate_plots s"
  "generate_comparison (viz_message m s) = generate_comparison s"
  "generate_report (viz_message m s) = generate_report s"
  "export_data (viz_message m s) = export_data s"
  "report_format (viz_message m s) = report_format s"
  "plot_listbox (viz_message m s) = plot_listbox s"
  "status (viz_message m s) = status s"
  "log_text (viz_message m s) = log_text s"
  "dialogs (viz_message m s) = dialogs s"
  "calls (viz_message m s) = calls s"
  "loaded_files (messagebox k t m s) = loaded_files s"
  "file_tree (messagebox k t m s) = file_tree s"
  "analyzer (messagebox k t m s) = analyzer s"
  "output_dir (messagebox k t m s) = output_dir s"
  "generate_plots (messagebox k t m s) = generate_plots s"
  "generate_comparison (messagebox k t m s) = generate_comparison s"
  "generate_report (messagebox k t m s) = generate_report s"
  "export_data (messagebox k t m s) = export_data s"
  "report_format (messagebox k t m s) = report_format s"
  "plot_listbox (messagebox k t m s) = plot_listbox s"
  "status (messagebox k t m s) = status s"
  "log_text (messagebox k t m s) = log_text s"
  "viz_text (messagebox k t m s) = viz_text s"
  "calls (messagebox k t m s) = calls s"
  "loaded_files (tree_set i v s) = loaded_files s"
  "analyzer (tree_set i v s) = analyzer s"
  "output_dir (tree_set i v s) = output_dir s"
  "generate_plots (tree_set i v s) = generate_plots s"
  "generate_comparison (tree_set i v s) = generate_comparison s"
  "generate_report (tree_set i v s) = generate_report s"
  "export_data (tree_set i v s) = export_data s"
  "report_format (tree_set i v s) = report_format s"
  "plot_listbox (tree_set i v s) = plot_listbox s"
  "status (tree_set i v s) = status s"
  "log_text (tree_set i v s) = log_text s"
  "viz_text (tree_set i v s) = viz_text s"
  "dialogs (tree_set i v s) = dialogs s"
  "calls (tree_set i v s) = calls s"
  "loaded_files (clear_plot_list s) = loaded_files s"
  "file_tree (clear_plot_list s) = file_tree s"
  "analyzer (clear_plot_list s) = analyzer s"
  "output_dir (clear_plot_list s) = output_dir s"
  "generate_plots (clear_plot_list s) = generate_plots s"
  "generate_comparison (clear_plot_list s) = generate_comparison s"
  "generate_report (clear_plot_list s) = generate_report s"
  "export_data (clear_plot_list s) = export_data s"
  "report_format (clear_plot_list s) = report_format s"
  "status (clear_plot_list s) = status s"
  "log_text (clear_plot_list s) = log_text s"
  "viz_text (clear_plot_list s) = viz_text s"
  "dialogs (clear_plot_list s) = dialogs s"
  "calls (clear_plot_list s) = calls s"
  "loaded_files (clear_all_results s) = loaded_files s"
  "file_tree (clear_all_results s) = file_tree s"
  "analyzer (clear_all_results s) = analyzer s"
  "output_dir (clear_all_results s) = output_dir s"
  "generate_plots (clear_all_results s) = generate_plots s"
  "generate_comparison (clear_all_results s) = generate_comparison s"
  "generate_report (clear_all_results s) = generate_report s"
  "export_data (clear_all_results s) = export_data s"
  "report_format (clear_all_results s) = report_format s"
  "status (clear_all_results s) = status s"
  "dialogs (clear_all_results s) = dialogs s"
  "calls (clear_all_results s) = calls s"
  "loaded_files (insert_plots p fs s) = loaded_files s"
  "file_tree (insert_plots p fs s) = file_tree s"
  "analyzer (insert_plots p fs s) = analyzer s"
  "output_dir (insert_plots p fs s) = output_dir s"
  "generate_plots (insert_plots p fs s) = generate_plots s"
  "generate_comparison (insert_plots p fs s) = generate_comparison s"
  "generate_report (insert_plots p fs s) = generate_report s"
  "export_data (insert_plots p fs s) = export_data s"
  "report_format (insert_plots p fs s) = report_format s"
  "status (insert_plots p fs s) = status s"
  "log_text (insert_plots p fs s) = log_text s"
  "viz_text (insert_plots p fs s) = viz_text s"
  "dialogs (insert_plots p fs s) = dialogs s"
  "calls (insert_plots p fs s) = calls s"
  by (simp_all add: shell_defs)

lemma list_plots_fields [simp]:
  "loaded_files (list_plots p fs s) = loaded_files s"
  "file_tree (list_plots p fs s) = file_tree s"
  "analyzer (list_plots p fs s) = analyzer s"
  "output_dir (list_plots p fs s) = output_dir s"
  "generate_plots (list_plots p fs s) = generate_plots s"
  "generate_comparison (list_plots p fs s) = generate_comparison s"
  "generate_report (list_plots p fs s) = generate_report s"
  "export_data (list_plots p fs s) = export_data s"
  "report_format (list_plots p fs s) = report_format s"
  "status (list_plots p fs s) = status s"
  "log_text (list_plots p fs s) = log_text s"
  "dialogs (list_plots p fs s) = dialogs s"
  "calls (list_plots p fs s) = calls s"
  unfolding list_plots_def by (induction fs arbitrary: s; simp)+

lemma fold_viz_fields [simp]:
  "loaded_files (fold (\<lambda>f. viz_message (g f)) fs s) = loaded_files s"
  "file_tree (fold (\<lambda>f. viz_message (g f)) fs s) = file_tree s"
  "analyzer (fold (\<lambda>f. viz_message (g f)) fs s) = analyzer s"
  "output_dir (fold (\<lambda>f. viz_message (g f)) fs s) = output_dir s"
  "generate_plots (fold (\<lambda>f. viz_message (g f)) fs s) = generate_plots s"
  "generate_comparison (fold (\<lambda>f. viz_message (g f)) fs s) = generate_comparison s"
  "generate_report (fold (\<lambda>f. viz_message (g f)) fs s) = generate_report s"
  "export_data (fold (\<lambda>f. viz_message (g f)) fs s) = export_data s"
  "report_format (fold (\<lambda>f. viz_message (g f)) fs s) = report_format s"
  "plot_listbox (fold (\<lambda>f. viz_message (g f)) fs s) = plot_listbox s"
  "status (fold (\<lambda>f. viz_message (g f)) fs s) = status s"
  "log_text (fold (\<lambda>f. viz_message (g f)) fs s) = log_text s"
  "dialogs (fold (\<lambda>f. viz_message (g f)) fs s) = dialogs s"
  "calls (fold (\<lambda>f. viz_message (g f)) fs s) = calls s"
  by (induction fs arbitrary: s; simp)+

lemma extends_refl: "extends eng s s"
  by (simp add: extends_def settings_kept_def)

lemma extends_trans: "extends eng s s' \<Longrightarrow> extends eng s' s'' \<Longrightarrow> extends eng s s''"
  by (auto simp: extends_def settings_kept_def)

lemma extends_helpers [simp]:
  "extends eng s (update_status m t s')  = extends eng s s'"
  "extends eng s (log_message m s') = extends eng s s'"
  "extends eng s (viz_message m s') = extends eng s s'"
  "extends eng s (messagebox k t m s') = extends eng s s'"
  "extends eng s (clear_plot_list s') = extends eng s s'"
  "extends eng s (clear_all_results s') = extends eng s s'"
  "extends eng s (insert_plots p fs s') = extends eng s s'"
  "extends eng s (s'\<lparr>viz_text := v\<rparr>) = extends eng s s'"
  "extends eng s (tree_set i w s') = extends eng s s'"
  by (simp_all add: extends_def settings_kept_def shell_defs)

lemma extends_helpers_left [simp]:
  "extends eng (update_status m t s) s' = extends eng s s'"
  "extends eng (log_message m s) s' = extends eng s s'"
  "extends eng (viz_message m s) s' = extends eng s s'"
  "extends eng (messagebox k t m s) s' = extends eng s s'"
  "extends eng (clear_plot_list s) s' = extends eng s s'"
  "extends eng (clear_all_results s) s' = extends eng s s'"
  "extends eng (s\<lparr>viz_text := v\<rparr>) s' = extends eng s s'"
  "extends eng (tree_set i w s) s' = extends eng s s'"
  by (simp_all add: extends_def settings_kept_def shell_defs)

lemma extends_list_plots [simp]: "extends eng s (list_plots p fs s') = extends eng s s'"
  by (simp add: extends_def settings_kept_def)

lemma extends_fold_viz [simp]:
  "extends eng s (fold (\<lambda>f. viz_message (g f)) fs s') = extends eng s s'"
  by (simp add: extends_def settings_kept_def)

lemma extends_call_engine:
  assumes "call_engine m e s = (r, s')"
    and "\<And>an. guarded_call eng (report_format s) (generate_plots s) (e an)"
  shows "extends eng s s'"
  using assms
  by (auto simp: call_engine_def extends_def settings_kept_def split: option.splits prod.splits)

lemma extends_full_analysis_plots: "extends eng s (full_analysis_plots eng s)"
proof -
  let ?s0 = "log_message ''Generating performance plots...''
                (update_status ''Generating performance plots...'' ''working'' s)"
  obtain r s' where c: "call_engine (analyzer_generate_performance_plots eng)
      Call_generate_performance_plots ?s0 = (r, s')" by force
  have "extends eng ?s0 s'" using c by (rule extends_call_engine) simp
  then have "extends eng s s'" by simp
  then show ?thesis unfolding full_analysis_plots_def using c by (cases r) (simp_all add: Let_def)
qed

lemma extends_compare:
  assumes c: "call_engine (analyzer_compare_simulations eng) Call_compare_simulations s0 = (r, s')"
    and n: "simulations_count eng s0 = Returns n" "2 \<le> n"
  shows "extends eng s0 s'"
  using assms
  by (auto simp: call_engine_def simulations_count_def extends_def settings_kept_def
      split: option.splits prod.splits)

lemma simulations_count_helpers [simp]:
  "simulations_count eng (update_status m t s) = simulations_count eng s"
  "simulations_count eng (log_message m s) = simulations_count eng s"
  "simulations_count eng (viz_message m s) = simulations_count eng s"
  "simulations_count eng (clear_plot_list s) = simulations_count eng s"
  by (simp_all add: simulations_count_def)

lemma extends_full_analysis_comparison:
  assumes "full_analysis_comparison eng s = Returns s'"
  shows "extends eng s s'"
proof -
  let ?s0 = "log_message ''Generating comparison analysis...''
               (update_status ''Generating comparison analysis...'' ''working'' s)"
  obtain n where n: "simulations_count eng s = Returns n"
    using assms unfolding full_analysis_comparison_def by (cases "simulations_count eng s") simp_all
  show ?thesis
  proof (cases "n > 1")
    case True
    obtain r s1 where c: "call_engine (analyzer_compare_simulations eng)
        Call_compare_simulations ?s0 = (r, s1)" by force
    have "extends eng ?s0 s1" using c by (rule extends_compare[where n = n]) (use n True in simp_all)
    then have "extends eng s s1" by simp
    then show ?thesis using assms n True c unfolding full_analysis_comparison_def
      by (cases r) (auto simp: Let_def)
  next
    case False
    then show ?thesis using assms n unfolding full_analysis_comparison_def
      by (auto simp: extends_refl)
  qed
qed

lemma extends_full_analysis_report: "extends eng s (full_analysis_report eng s)"
proof -
  let ?s0 = "log_message ''Generating analysis report...''
                (update_status ''Generating detailed report...'' ''working'' s)"
  obtain r s' where c: "call_engine
      (\<lambda>an. analyzer_generate_report eng an (report_format s) (generate_plots s))
      (\<lambda>an. Call_generate_report an (report_format s) (generate_plots s)) ?s0 = (r, s')" by force
  have "extends eng ?s0 s'" using c by (rule extends_call_engine) simp
  then have "extends eng s s'" by simp
  then show ?thesis unfolding full_analysis_report_def using c by (cases r) simp_all
qed

lemma extends_full_analysis_export: "extends eng s (full_analysis_export eng s)"
proof -
  let ?s0 = "log_message ''Exporting processed data...''
                (update_status ''Exporting processed data...'' ''working'' s)"
  obtain r s' where c: "call_engine (analyzer_export_processed_data eng)
      Call_export_processed_data ?s0 = (r, s')" by force
  have "extends eng ?s0 s'" using c by (rule extends_call_engine) simp
  then have "extends eng s s'" by simp
  then show ?thesis unfolding full_analysis_export_def using c by (cases r) simp_all
qed

lemma extends_summary: "extends eng s (generate_comprehensive_summary eng s)"
proof -
  obtain r s' where c: "call_engine (analyzer_get_summary_statistics eng)
      Call_get_summary_statistics s = (r, s')" by force
  have "extends eng s s'" using c by (rule extends_call_engine) simp
  then show ?thesis unfolding generate_comprehensive_summary_def using c by simp
qed

lemma extends_run_full_analysis_thread: "extends eng s (run_full_analysis_thread eng s)"
proof -
  let ?s1 = "log_message ''COMPREHENSIVE ANALYSIS STARTED''
                 (update_status ''Running comprehensive analysis...'' ''working'' s)"
  let ?s2 = "if generate_plots ?s1 then full_analysis_plots eng ?s1 else ?s1"
  have e2: "extends eng s ?s2"
    using extends_full_analysis_plots[of eng ?s1] by (simp add: extends_refl)
  show ?thesis
  proof (cases "if generate_comparison ?s2 then full_analysis_comparison eng ?s2 else Returns ?s2")
    case Raises
    then show ?thesis unfolding run_full_analysis_thread_def Let_def using e2 by simp
  next
    case (Returns s3)
    have e3: "extends eng s s3"
    proof (cases "generate_comparison ?s2")
      case True
      with Returns have "extends eng ?s2 s3" by (simp add: extends_full_analysis_comparison)
      with e2 show ?thesis by (rule extends_trans)
    next
      case False
      with Returns e2 show ?thesis by simp
    qed
    let ?s4 = "if generate_report s3 then full_analysis_report eng s3 else s3"
    have e4: "extends eng s ?s4"
      using extends_trans[OF e3 extends_full_analysis_report[of eng s3]] e3 by simp
    let ?s5 = "if export_data ?s4 then full_analysis_export eng ?s4 else ?s4"
    have e5: "extends eng s ?s5"
      using extends_trans[OF e4 extends_full_analysis_export[of eng ?s4]] e4 by simp
    let ?s6 = "generate_comprehensive_summary eng
                 (update_status ''Generating summary statistics...'' ''working'' ?s5)"
    have "extends eng ?s5 ?s6"
      using extends_summary[of eng "update_status ''Generating summary statistics...'' ''working'' ?s5"]
      by simp
    with e5 have "extends eng s ?s6" by (rule extends_trans)
    then show ?thesis unfolding run_full_analysis_thread_def Let_def using Returns by simp
  qed
qed

lemma extends_generate_performance_plots_thread:
  "extends eng s (generate_performance_plots_thread eng s)"
proof -
  let ?s0 = "viz_message ''Starting performance plot generation...'' s"
  obtain r s' where c: "call_engine (analyzer_generate_performance_plots eng)
      Call_generate_performance_plots ?s0 = (r, s')" by force
  have "extends eng ?s0 s'" using c by (rule extends_call_engine) simp
  then have "extends eng s s'" by simp
  then show ?thesis unfolding generate_performance_plots_thread_def using c by (cases r) simp_all
qed

lemma extends_generate_comparison_plots_thread:
  assumes "simulations_count eng s = Returns n" "2 \<le> n"
  shows "extends eng s (generate_comparison_plots_thread eng s)"
proof -
  let ?s0 = "viz_message ''Starting comparison plot generation...'' s"
  obtain r s' where c: "call_engine (analyzer_compare_simulations eng)
      Call_compare_simulations ?s0 = (r, s')" by force
  have "extends eng ?s0 s'" using c by (rule extends_compare[where n = n]) (use assms in simp_all)
  then have "extends eng s s'" by simp
  then show ?thesis unfolding generate_comparison_plots_thread_def using c by (cases r) simp_all
qed

lemma extends_all_plots_summary [simp]:
  "extends eng s (all_plots_summary s') = extends eng s s'"
  by (simp add: all_plots_summary_def Let_def)

lemma extends_plot_generation_failed [simp]:
  "extends eng s (plot_generation_failed s') = extends eng s s'"
  by (simp add: plot_generation_failed_def)

lemma extends_generate_all_plots_thread: "extends eng s (generate_all_plots_thread eng s)"
proof -
  let ?s1 = "viz_message ''Generating performance plots...''
                 (viz_message ''PLOT GENERATION SESSION STARTED''
                    ((update_status ''Generating all visualization plots...'' ''working'' s)
                       \<lparr>viz_text := []\<rparr>))"
  obtain r s' where c: "call_engine (analyzer_generate_performance_plots eng)
      Call_generate_performance_plots ?s1 = (r, s')" by force
  have "extends eng ?s1 s'" using c by (rule extends_call_engine) simp
  then have e1: "extends eng s s'" by simp
  let ?s2 = "case (r, s') of
                  (Raises, s') \<Rightarrow> viz_message ''Performance plot generation failed'' s'
                | (Returns plot_files, s') \<Rightarrow>
                    if plot_files \<noteq> [] then
                      list_plots [] plot_files
                        (viz_message ''Performance plots generated successfully:'' s')
                    else viz_message ''No performance plot files generated'' s'"
  have e2: "extends eng s ?s2" using e1 by (cases r) simp_all
  show ?thesis
  proof (cases "simulations_count eng ?s2")
    case Raises
    then show ?thesis unfolding generate_all_plots_thread_def Let_def c using e2 by simp
  next
    case (Returns n)
    show ?thesis
    proof (cases "n > 1")
      case True
      let ?s3 = "viz_message ''Generating comparison plots...'' ?s2"
      obtain r2 s4 where c2: "call_engine (analyzer_compare_simulations eng)
          Call_compare_simulations ?s3 = (r2, s4)" by force
      have "extends eng ?s3 s4" using c2
        by (rule extends_compare[where n = n]) (use Returns True in simp_all)
      then have "extends eng ?s2 s4" by simp
      with e2 have "extends eng s s4" by (rule extends_trans)
      then show ?thesis unfolding generate_all_plots_thread_def Let_def c
        using Returns True c2 by (cases r2) simp_all
    next
      case False
      then show ?thesis unfolding generate_all_plots_thread_def Let_def c
        using Returns e2 by simp
    qed
  qed
qed

lemma extends_generate_plots_thread: "extends eng s (generate_plots_thread eng s)"
proof -
  let ?s1 = "viz_message ''Generating performance plots...''
                 (viz_message ''PLOT GENERATION LOG''
                    ((update_status ''Generating visualization plots...'' ''working'' s)
                       \<lparr>viz_text := []\<rparr>))"
  obtain r s' where c: "call_engine (analyzer_generate_performance_plots eng)
      Call_generate_performance_plots ?s1 = (r, s')" by force
  have "extends eng ?s1 s'" using c by (rule extends_call_engine) simp
  then have e1: "extends eng s s'" by simp
  show ?thesis
  proof (cases r)
    case Raises
    then show ?thesis unfolding generate_plots_thread_def Let_def c using e1 by simp
  next
    case (Returns plot_files)
    let ?s2 = "if plot_files \<noteq> [] then
                          fold (\<lambda>f. viz_message (''   '' @ f)) plot_files
                            (viz_message ''Performance plots generated:'' s')
                        else s'"
    have e2: "extends eng s ?s2" using e1 by simp
    show ?thesis
    proof (cases "simulations_count eng ?s2")
      case Raises
      then show ?thesis unfolding generate_plots_thread_def Let_def c using e2 Returns by simp
    next
      case n: (Returns n)
      show ?thesis
      proof (cases "n > 1")
        case True
        let ?s3 = "viz_message ''Generating comparison plots...'' ?s2"
        obtain r2 s4 where c2: "call_engine (analyzer_compare_simulations eng)
            Call_compare_simulations ?s3 = (r2, s4)" by force
        have "extends eng ?s3 s4" using c2
          by (rule extends_compare[where n = n]) (use n True in simp_all)
        then have "extends eng ?s2 s4" by simp
        with e2 have "extends eng s s4" by (rule extends_trans)
        then show ?thesis unfolding generate_plots_thread_def Let_def c
          using Returns n True c2 by (cases r2) simp_all
      next
        case False
        then show ?thesis unfolding generate_plots_thread_def Let_def c
          using Returns n e2 by simp
      qed
    qed
  qed
qed

lemma load_files_loop_extends:
  "load_files_loop eng zs (s, lc, ff) = (b, s', lc', ff') \<Longrightarrow> extends eng s s'"
proof (induction zs arbitrary: s lc ff)
  case Nil
  then show ?case by (simp add: extends_refl)
next
  case (Cons z zs)
  obtain f i where z: "z = (f, i)" by (cases z)
  obtain r s1 where c: "call_engine (\<lambda>an. analyzer_load_simulation eng an f)
      (\<lambda>an. Call_load_simulation an f) (tree_set i Loading s) = (r, s1)" by force
  have "extends eng (tree_set i Loading s) s1" using c by (rule extends_call_engine) simp
  then have e1: "extends eng s s1" by simp
  show ?case
  proof (cases r)
    case Raises
    then show ?thesis using Cons.prems c e1 by (simp add: z)
  next
    case (Returns success)
    show ?thesis
    proof (cases success)
      case True
      with Cons.prems c Returns
      have "load_files_loop eng zs (tree_set i Loaded s1, lc + 1, ff) = (b, s', lc', ff')"
        by (simp add: z)
      from Cons.IH[OF this] have "extends eng s1 s'" by simp
      with e1 show ?thesis by (rule extends_trans)
    next
      case False
      with Cons.prems c Returns
      have "load_files_loop eng zs (tree_set i Failed s1, lc, ff @ [basename f]) = (b, s', lc', ff')"
        by (simp add: z)
      from Cons.IH[OF this] have "extends eng s1 s'" by simp
      with e1 show ?thesis by (rule extends_trans)
    qed
  qed
qed

lemma initialize_failed_simps [simp]:
  "extends eng s (initialize_failed s') = extends eng s s'"
  "analyzer (initialize_failed s) = analyzer s"
  "calls (initialize_failed s) = calls s"
  by (simp_all add: initialize_failed_def)

lemma extends_construct:
  "extends eng s ((update_status m t s)\<lparr>calls := calls s @ [Call_MANETAnalyzer d]\<rparr>)"
  by (simp add: extends_def settings_kept_def)

lemma extends_set_analyzer [simp]:
  "extends eng (s\<lparr>analyzer := a\<rparr>) s' = extends eng s s'"
  "extends eng s (s'\<lparr>analyzer := a\<rparr>) = extends eng s s'"
  by (simp_all add: extends_def settings_kept_def)

lemma initialize_analyzer_extends:
  assumes "initialize_analyzer eng s = (b, s')"
  shows "extends eng s s'"
proof (cases "loaded_files s = []")
  case True
  with assms show ?thesis by (auto simp: initialize_analyzer_def extends_refl)
next
  case False
  let ?s1 = "(update_status ''Initializing analyzer...'' ''working'' s)
                    \<lparr>calls := calls s @ [Call_MANETAnalyzer (output_dir s)]\<rparr>"
  have e1: "extends eng s ?s1" by (rule extends_construct)
  show ?thesis
  proof (cases "analyzer_new eng (output_dir s)")
    case Raises
    with assms False e1 show ?thesis by (auto simp: initialize_analyzer_def Let_def)
  next
    case (Returns an)
    obtain c s2 lc ff where l: "load_files_loop eng
                        (zip (loaded_files s) [0..<length (file_tree s)])
                        (?s1\<lparr>analyzer := Some an\<rparr>, 0, []) = (c, s2, lc, ff)"
      by (metis prod_cases4)
    from load_files_loop_extends[OF l] have "extends eng ?s1 s2" by simp
    with e1 have e2: "extends eng s s2" by (rule extends_trans)
    show ?thesis using assms False Returns l e2
      by (auto simp: initialize_analyzer_def Let_def split: bool.splits outcome.splits if_splits)
  qed
qed

lemma initialize_analyzer_True:
  assumes "initialize_analyzer eng s = (True, s')"
  shows "\<exists>n. simulations_count eng s' = Returns n \<and> 0 < n"
  using assms
  by (auto simp: initialize_analyzer_def Let_def
      split: bool.splits outcome.splits if_splits prod.splits)


lemma perform_extends: "extends eng s (perform eng a s)"
proof -
  obtain b s' where i: "initialize_analyzer eng s = (b, s')" by force
  have e: "extends eng s s'" using i by (rule initialize_analyzer_extends)
  show ?thesis
  proof (cases b)
    case False
    with i e show ?thesis
      by (cases a) (simp_all add: run_full_analysis_def show_quick_stats_def
          generate_plots_only_def generate_performance_plots_def generate_comparison_plots_def)
  next
    case True
    with i have "initialize_analyzer eng s = (True, s')" by simp
    from initialize_analyzer_True[OF this]
    obtain n where n: "simulations_count eng s' = Returns n" "0 < n" by blast
    show ?thesis
    proof (cases a)
      case Run_full_analysis
      have "extends eng s' (run_full_analysis_thread eng (clear_all_results s'))"
        using extends_run_full_analysis_thread[of eng "clear_all_results s'"] by simp
      with e have "extends eng s (run_full_analysis_thread eng (clear_all_results s'))"
        by (rule extends_trans)
      then show ?thesis using Run_full_analysis i True by (simp add: run_full_analysis_def)
    next
      case Show_quick_stats
      let ?s0 = "update_status ''Calculating quick statistics...'' ''working'' s'"
      obtain r s2 where c: "call_engine (analyzer_get_summary_statistics eng)
          Call_get_summary_statistics ?s0 = (r, s2)" by force
      have "extends eng ?s0 s2" using c by (rule extends_call_engine) simp
      then have "extends eng s' s2" by simp
      with e have "extends eng s s2" by (rule extends_trans)
      then show ?thesis using Show_quick_stats i True c
        by (cases r) (simp_all add: show_quick_stats_def)
    next
      case Generate_plots_only
      have "extends eng s' (generate_all_plots_thread eng (clear_plot_list s'))"
        using extends_generate_all_plots_thread[of eng "clear_plot_list s'"] by simp
      with e have "extends eng s (generate_all_plots_thread eng (clear_plot_list s'))"
        by (rule extends_trans)
      then show ?thesis using Generate_plots_only i True by (simp add: generate_plots_only_def)
    next
      case Generate_performance_plots
      let ?s0 = "update_status ''Generating performance plots...'' ''working'' s'"
      have "extends eng s' (generate_performance_plots_thread eng ?s0)"
        using extends_generate_performance_plots_thread[of eng ?s0] by simp
      with e have "extends eng s (generate_performance_plots_thread eng ?s0)"
        by (rule extends_trans)
      then show ?thesis using Generate_performance_plots i True
        by (simp add: generate_performance_plots_def)
    next
      case Generate_comparison_plots
      show ?thesis
      proof (cases "n < 2")
        case less: True
        then show ?thesis using Generate_comparison_plots i True n e
          by (simp add: generate_comparison_plots_def)
      next
        case False
        let ?s0 = "update_status ''Generating comparison plots...'' ''working'' s'"
        have "extends eng ?s0 (generate_comparison_plots_thread eng ?s0)"
          by (rule extends_generate_comparison_plots_thread[where n = n]) (use n False in simp_all)
        then have "extends eng s' (generate_comparison_plots_thread eng ?s0)" by simp
        with e have "extends eng s (generate_comparison_plots_thread eng ?s0)"
          by (rule extends_trans)
        then show ?thesis using Generate_comparison_plots i True n False
          by (simp add: generate_comparison_plots_def)
      qed
    qed
  qed
qed

lemma guarded_call_compare_ok: "guarded_call eng fmt plots c \<Longrightarrow> compare_ok eng c"
  by (cases c) simp_all

lemma guarded_call_report_ok:
  "guarded_call eng fmt plots c \<Longrightarrow> fmt \<in> set format_values \<Longrightarrow> report_ok c"
  by (cases c) simp_all

lemma extends_session_inv:
  assumes "extends eng s s'" "session_inv eng s"
  shows "session_inv eng s'"
proof -
  from assms(1) obtain cs where k: "settings_kept s s'" and cs: "calls s' = calls s @ cs"
    and g: "list_all (guarded_call eng (report_format s) (generate_plots s)) cs"
    unfolding extends_def by blast
  from assms(2) have f: "report_format s \<in> set format_values" by (simp add: session_inv_def)
  have "list_all (compare_ok eng) cs" "list_all report_ok cs"
    using g f by (auto simp: list_all_iff intro: guarded_call_compare_ok guarded_call_report_ok)
  with assms(2) k cs show ?thesis
    by (simp add: session_inv_def settings_kept_def files_inv_def)
qed

lemma add_paths_inv:
  "add_paths env fs (s, n) = (s', n') \<Longrightarrow> session_inv eng s \<Longrightarrow> session_inv eng s'"
  by (induction fs arbitrary: s n) (auto simp: session_inv_def files_inv_def split: if_splits)

lemma add_paths_present:
  "set fs \<subseteq> set (loaded_files s) \<Longrightarrow> add_paths env fs (s, n) = (s, n)"
  by (induction fs) simp_all

lemma session_inv_status [simp]:
  "session_inv eng (update_status m t s) = session_inv eng s"
  by (simp add: session_inv_def files_inv_def)

lemma apply_op_inv: "session_inv eng s \<Longrightarrow> session_inv eng (apply_op eng env op s)"
proof (cases op)
  case (Add_files files)
  assume inv: "session_inv eng s"
  obtain s' n' where a: "add_paths env files (s, 0) = (s', n')" by force
  from add_paths_inv[OF a inv] show ?thesis using Add_files a by (simp add: add_files_def)
next
  case (Add_folder folder)
  assume inv: "session_inv eng s"
  obtain s' n' where a: "add_paths env (glob_json env folder) (s, 0) = (s', n')" by force
  from add_paths_inv[OF a inv] show ?thesis using Add_folder a inv by (simp add: add_folder_def)
next
  case (Act a)
  assume "session_inv eng s"
  with perform_extends[of eng s a] show ?thesis using Act by (simp add: extends_session_inv)
qed (auto simp: session_inv_def files_inv_def clear_files_def browse_output_dir_def
      select_report_format_def shell_defs)

lemma initial_gui_inv: "session_inv eng initial_gui"
  by (simp add: session_inv_def files_inv_def initial_gui_def format_values_def)

lemma run_ops_inv: "session_inv eng s \<Longrightarrow> session_inv eng (run_ops eng env ops s)"
  unfolding run_ops_def by (induction ops arbitrary: s) (simp_all add: apply_op_inv)

text \<open>
  C9. The list of loaded files is duplicate-free after every sequence of operations of
  the window, \<open>add_files\<close> and \<open>add_folder\<close> among them: a path already in
  \<open>loaded_files\<close> is skipped, and adding only paths already present leaves the list and
  the file tree as they were.
\<close>

theorem loaded_files_duplicate_free:
  "distinct (loaded_files (run_ops eng env ops initial_gui)) \<and>
   (file_path \<in> set (loaded_files s) \<longrightarrow>
      add_paths env (file_path # files) (s, n) = add_paths env files (s, n)) \<and>
   (set files \<subseteq> set (loaded_files s) \<longrightarrow>
      loaded_files (add_files env files s) = loaded_files s \<and>
      file_tree (add_files env files s) = file_tree s) \<and>
   (set (glob_json env folder) \<subseteq> set (loaded_files s) \<longrightarrow>
      loaded_files (add_folder env folder s) = loaded_files s \<and>
      file_tree (add_folder env folder s) = file_tree s)"
proof -
  have "session_inv eng (run_ops eng env ops initial_gui)"
    by (rule run_ops_inv) (rule initial_gui_inv)
  then have "distinct (loaded_files (run_ops eng env ops initial_gui))"
    by (simp add: session_inv_def files_inv_def)
  then show ?thesis
    by (simp add: add_files_def add_folder_def add_paths_present)
qed

theorem loaded_files_duplicate_free_witness:
  "distinct (loaded_files (run_ops example_engine example_environment
      [Add_files [''a.json'', ''b.json'', ''a.json''], Add_folder ''runs'', Add_files [''b.json'']]
      (initial_gui :: string list gui))) \<and>
   loaded_files (run_ops example_engine example_environment
      [Add_files [''a.json'', ''b.json'', ''a.json''], Add_folder ''runs'', Add_files [''b.json'']]
      (initial_gui :: string list gui)) = [''a.json'', ''b.json'', ''runs/a.json''] \<and>
   loaded_files (add_files example_environment [''a.json'', ''a.json'']
      (add_files example_environment [''a.json''] (initial_gui :: string list gui))) =
     [''a.json''] \<and>
   length (file_tree (add_files example_environment [''a.json'', ''a.json'']
      (add_files example_environment [''a.json''] (initial_gui :: string list gui)))) = 1"
proof -
  let ?s = "add_files example_environment [''a.json''] (initial_gui :: string list gui)"
  have l: "loaded_files ?s = [''a.json'']"
    by (simp add: add_files_def initial_gui_def update_status_def)
  have t: "length (file_tree ?s) = 1"
    by (simp add: add_files_def initial_gui_def update_status_def)
  have h: "set [''a.json'', ''a.json''] \<subseteq> set (loaded_files ?s)" by (simp add: l)
  have r: "loaded_files (run_ops example_engine example_environment
      [Add_files [''a.json'', ''b.json'', ''a.json''], Add_folder ''runs'', Add_files [''b.json'']]
      (initial_gui :: string list gui)) = [''a.json'', ''b.json'', ''runs/a.json'']"
    by (simp add: run_ops_def add_files_def add_folder_def initial_gui_def update_status_def
        example_environment_def)
  from loaded_files_duplicate_free[where eng = example_engine and env = example_environment
      and ops = "[Add_files [''a.json'', ''b.json'', ''a.json''], Add_folder ''runs'',
                  Add_files [''b.json'']]"
      and s = ?s and files = "[''a.json'', ''a.json'']"]
  show ?thesis using h l t r by simp
qed

lemma gui_update_same:
  "analyzer s = Some an \<Longrightarrow>
   s\<lparr>file_tree := file_tree s, analyzer := Some an, calls := calls s\<rparr> = s"
  by (cases s) simp

lemma load_files_loop_outcomes:
  assumes "batch_outcomes eng an fs = Some bs" "analyzer s = Some an"
    "k + length fs \<le> length (file_tree s)"
  shows "\<exists>T. load_files_loop eng (zip fs [k..<k + length fs]) (s, lc, ff) =
           (True,
            s\<lparr>file_tree := T, analyzer := Some (analyzer_after eng an fs),
              calls := calls s @ load_calls eng an fs\<rparr>,
            lc + length (filter id bs),
            ff @ map (\<lambda>(f, b). basename f) (filter (\<lambda>(f, b). \<not> b) (zip fs bs))) \<and>
         length T = length (file_tree s) \<and>
         (\<forall>i < length T. T ! i =
            (if k \<le> i \<and> i < k + length fs
             then (file_tree s ! i)\<lparr>status_col := loaded_status (bs ! (i - k))\<rparr>
             else file_tree s ! i))"
  using assms
proof (induction fs arbitrary: k s an bs lc ff)
  case Nil
  then show ?case by (auto simp: gui_update_same intro!: exI[of _ "file_tree s"])
next
  case (Cons f fs)
  obtain r an' where l: "analyzer_load_simulation eng an f = (r, an')" by force
  with Cons.prems(1) obtain b bs' where r: "r = Returns b"
    and bs': "batch_outcomes eng an' fs = Some bs'" and bs: "bs = b # bs'"
    by (cases r) auto
  let ?s1 = "(tree_set k Loading s)\<lparr>analyzer := Some an',
      calls := calls s @ [Call_load_simulation an f]\<rparr>"
  have c: "call_engine (\<lambda>an. analyzer_load_simulation eng an f)
             (\<lambda>an. Call_load_simulation an f) (tree_set k Loading s) = (Returns b, ?s1)"
    using Cons.prems(2) l r by (simp add: call_engine_def)
  let ?s2 = "tree_set k (loaded_status b) ?s1"
  let ?lc = "if b then lc + 1 else lc"
  let ?ff = "if b then ff else ff @ [basename f]"
  have z: "zip (f # fs) [k..<k + length (f # fs)] = (f, k) # zip fs [Suc k..<Suc k + length fs]"
    by (simp add: upt_conv_Cons del: upt_Suc)
  have step: "load_files_loop eng (zip (f # fs) [k..<k + length (f # fs)]) (s, lc, ff) =
        load_files_loop eng (zip fs [Suc k..<Suc k + length fs]) (?s2, ?lc, ?ff)"
    unfolding z using c by (simp add: loaded_status_def)
  have a2: "analyzer ?s2 = Some an'" by simp
  have k2: "Suc k + length fs \<le> length (file_tree ?s2)"
    using Cons.prems(3) by (simp add: tree_set_def)
  from Cons.IH[OF bs' a2 k2, of ?lc ?ff] obtain T where
    T1: "load_files_loop eng (zip fs [Suc k..<Suc k + length fs]) (?s2, ?lc, ?ff) =
           (True,
            ?s2\<lparr>file_tree := T, analyzer := Some (analyzer_after eng an' fs),
              calls := calls ?s2 @ load_calls eng an' fs\<rparr>,
            ?lc + length (filter id bs'),
            ?ff @ map (\<lambda>(f, b). basename f) (filter (\<lambda>(f, b). \<not> b) (zip fs bs')))"
    and T2: "length T = length (file_tree ?s2)"
    and T3: "\<forall>i < length T. T ! i =
            (if Suc k \<le> i \<and> i < Suc k + length fs
             then (file_tree ?s2 ! i)\<lparr>status_col := loaded_status (bs' ! (i - Suc k))\<rparr>
             else file_tree ?s2 ! i)"
    by blast
  have e1: "?s2\<lparr>file_tree := T, analyzer := Some (analyzer_after eng an' fs),
              calls := calls ?s2 @ load_calls eng an' fs\<rparr> =
            s\<lparr>file_tree := T, analyzer := Some (analyzer_after eng an (f # fs)),
              calls := calls s @ load_calls eng an (f # fs)\<rparr>"
    using l by (simp add: tree_set_def)
  have e2: "?lc + length (filter id bs') = lc + length (filter id bs)"
    using bs by simp
  have e3: "?ff @ map (\<lambda>(f, b). basename f) (filter (\<lambda>(f, b). \<not> b) (zip fs bs')) =
            ff @ map (\<lambda>(f, b). basename f) (filter (\<lambda>(f, b). \<not> b) (zip (f # fs) bs))"
    using bs by simp
  have len: "length T = length (file_tree s)" using T2 by (simp add: tree_set_def)
  have nth: "\<forall>i < length T. T ! i =
            (if k \<le> i \<and> i < k + length (f # fs)
             then (file_tree s ! i)\<lparr>status_col := loaded_status (bs ! (i - k))\<rparr>
             else file_tree s ! i)"
  proof (intro allI impI)
    fix i assume i: "i < length T"
    show "T ! i = (if k \<le> i \<and> i < k + length (f # fs)
             then (file_tree s ! i)\<lparr>status_col := loaded_status (bs ! (i - k))\<rparr>
             else file_tree s ! i)"
    proof (cases "i = k")
      case True
      with T3 i len show ?thesis by (simp add: tree_set_def bs)
    next
      case False
      with T3 i len show ?thesis
        by (auto simp: tree_set_def bs nth_Cons' Suc_diff_Suc not_less_eq_eq
            split: if_splits)
    qed
  qed
  show ?case
    unfolding step T1 e1 e2 e3 using len nth by blast
qed

lemma batch_outcomes_length: "batch_outcomes eng an fs = Some bs \<Longrightarrow> length bs = length fs"
  by (induction fs arbitrary: an bs) (auto split: prod.splits outcome.splits)

lemma load_exception_ends_batch:
  assumes "analyzer s = Some an" "analyzer_load_simulation eng an f = (Raises, an')"
  shows "fst (load_files_loop eng ((f, i) # rest) (s, lc, ff)) = False"
  using assms by (simp add: call_engine_def)

lemma load_files_loop_whole:
  assumes "length (file_tree s) = length (loaded_files s)"
    and "analyzer s = Some an"
    and "batch_outcomes eng an (loaded_files s) = Some bs"
  shows "\<exists>s'. load_files_loop eng (zip (loaded_files s) [0..<length (file_tree s)]) (s, 0, []) =
            (True, s', length (filter id bs),
             map (\<lambda>(f, b). basename f) (filter (\<lambda>(f, b). \<not> b) (zip (loaded_files s) bs))) \<and>
          calls s' = calls s @ load_calls eng an (loaded_files s) \<and>
          analyzer s' = Some (analyzer_after eng an (loaded_files s)) \<and>
          map status_col (file_tree s') = map loaded_status bs"
proof -
  have lb: "length bs = length (loaded_files s)"
    using assms(3) by (rule batch_outcomes_length)
  from load_files_loop_outcomes[OF assms(3) assms(2), of 0 0 "[]"] assms(1)
  obtain T where
    T1: "load_files_loop eng (zip (loaded_files s) [0..<length (file_tree s)]) (s, 0, []) =
           (True,
            s\<lparr>file_tree := T, analyzer := Some (analyzer_after eng an (loaded_files s)),
              calls := calls s @ load_calls eng an (loaded_files s)\<rparr>,
            length (filter id bs),
            map (\<lambda>(f, b). basename f) (filter (\<lambda>(f, b). \<not> b) (zip (loaded_files s) bs)))"
    and T2: "length T = length (file_tree s)"
    and T3: "\<forall>i < length T. T ! i =
            (if i < length (loaded_files s)
             then (file_tree s ! i)\<lparr>status_col := loaded_status (bs ! i)\<rparr>
             else file_tree s ! i)"
    by auto
  have "map status_col T = map loaded_status bs"
    using T2 T3 lb assms(1) by (intro nth_equalityI) simp_all
  with T1 show ?thesis by simp
qed

lemma example_files_fields:
  "loaded_files example_files = [''a.json'', ''bad.json'', ''c.json'']"
  "length (file_tree example_files) = 3"
  "calls example_files = []"
  "analyzer example_files = None"
  "output_dir example_files = ''analysis_output''"
  by (simp_all add: example_files_def add_files_def initial_gui_def update_status_def)

lemma example_engine_simps [simp]:
  "analyzer_new example_engine d = Returns []"
  "analyzer_load_simulation example_engine an p =
     (if p = ''bad.json'' then (Returns False, an) else (Returns True, an @ [p]))"
  "analyzer_simulations example_engine an = length an"
  "analyzer_generate_performance_plots example_engine an =
     (Returns [''out/performance.png''], an)"
  "analyzer_compare_simulations example_engine an = (Returns [''out/comparison.png''], an)"
  "analyzer_generate_report example_engine an fmt plots = (Returns (''out/report.'' @ fmt), an)"
  "analyzer_export_processed_data example_engine an = (Returns ''out/data.json'', an)"
  "analyzer_get_summary_statistics example_engine an = (Returns (), an)"
  by (simp_all add: example_engine_def)

lemma example_batch:
  "batch_outcomes example_engine [] [''a.json'', ''bad.json'', ''c.json''] =
     Some [True, False, True]"
  by simp



lemma initialize_analyzer_loads_all:
  assumes "length (file_tree s) = length (loaded_files s)" "loaded_files s \<noteq> []"
    and "analyzer_new eng (output_dir s) = Returns an0"
    and "batch_outcomes eng an0 (loaded_files s) = Some bs"
  shows "calls (snd (initialize_analyzer eng s)) =
           calls s @ Call_MANETAnalyzer (output_dir s) # load_calls eng an0 (loaded_files s)"
    and "analyzer (snd (initialize_analyzer eng s)) =
           Some (analyzer_after eng an0 (loaded_files s))"
    and "map status_col (file_tree (snd (initialize_analyzer eng s))) = map loaded_status bs"
    and "fst (initialize_analyzer eng s) =
           (0 < analyzer_simulations eng (analyzer_after eng an0 (loaded_files s)))"
proof -
  let ?s1 = "((update_status ''Initializing analyzer...'' ''working'' s)
                    \<lparr>calls := calls s @ [Call_MANETAnalyzer (output_dir s)]\<rparr>)
                    \<lparr>analyzer := Some an0\<rparr>"
  have "\<exists>s'. load_files_loop eng (zip (loaded_files ?s1) [0..<length (file_tree ?s1)])
            (?s1, 0, []) =
            (True, s', length (filter id bs),
             map (\<lambda>(f, b). basename f) (filter (\<lambda>(f, b). \<not> b) (zip (loaded_files ?s1) bs))) \<and>
          calls s' = calls ?s1 @ load_calls eng an0 (loaded_files ?s1) \<and>
          analyzer s' = Some (analyzer_after eng an0 (loaded_files ?s1)) \<and>
          map status_col (file_tree s') = map loaded_status bs"
    by (rule load_files_loop_whole) (use assms in simp_all)
  then obtain s' lc ff where
    l: "load_files_loop eng (zip (loaded_files s) [0..<length (file_tree s)]) (?s1, 0, []) =
            (True, s', lc, ff)"
    and c: "calls s' = calls s @ Call_MANETAnalyzer (output_dir s) # load_calls eng an0 (loaded_files s)"
    and a: "analyzer s' = Some (analyzer_after eng an0 (loaded_files s))"
    and t: "map status_col (file_tree s') = map loaded_status bs"
    by auto
  have i: "initialize_analyzer eng s =
      (if analyzer_simulations eng (analyzer_after eng an0 (loaded_files s)) = 0 then
         (False, messagebox ''error'' ''Error'' ''No valid simulation files could be loaded.''
                   (update_status ''No valid simulations loaded'' ''error'' s'))
       else
         (True, update_status (''Analyzer ready - '' @ show_nat lc @ '' simulations loaded'')
                  ''success''
                  (let s3 = log_message (''Loaded: '' @ show_nat lc @ '' simulations'')
                              (log_message ''Analyzer initialized successfully'' s')
                   in if ff \<noteq> [] then
                        log_message (''Failed to load: '' @ join '', '' ff) s3
                      else s3)))"
    using assms(2,3) l a
    by (simp add: initialize_analyzer_def Let_def simulations_count_def)
  show "calls (snd (initialize_analyzer eng s)) =
           calls s @ Call_MANETAnalyzer (output_dir s) # load_calls eng an0 (loaded_files s)"
    unfolding i using c by (simp add: Let_def)
  show "analyzer (snd (initialize_analyzer eng s)) =
           Some (analyzer_after eng an0 (loaded_files s))"
    unfolding i using a by (simp add: Let_def)
  show "map status_col (file_tree (snd (initialize_analyzer eng s))) = map loaded_status bs"
    unfolding i using t by (simp add: Let_def)
  show "fst (initialize_analyzer eng s) =
           (0 < analyzer_simulations eng (analyzer_after eng an0 (loaded_files s)))"
    unfolding i by simp
qed



lemma compare_ok_iff:
  "list_all (compare_ok eng) cs \<longleftrightarrow>
     (\<forall>an. Call_compare_simulations an \<in> set cs \<longrightarrow> 2 \<le> analyzer_simulations eng an)"
proof (induction cs)
  case Nil
  then show ?case by simp
next
  case (Cons c cs)
  then show ?case by (cases c) auto
qed

lemma extends_compare_ok:
  assumes "extends eng s s'"
  shows "\<exists>cs. calls s' = calls s @ cs \<and>
            (\<forall>an. Call_compare_simulations an \<in> set cs \<longrightarrow> 2 \<le> analyzer_simulations eng an)"
proof -
  from assms obtain cs where cs: "calls s' = calls s @ cs"
    and g: "list_all (guarded_call eng (report_format s) (generate_plots s)) cs"
    unfolding extends_def by blast
  have "list_all (compare_ok eng) cs"
    using g by (auto simp: list_all_iff intro: guarded_call_compare_ok)
  with cs show ?thesis by (auto simp: compare_ok_iff)
qed

lemma example_single_fields:
  "loaded_files example_single = [''a.json'']"
  "length (file_tree example_single) = 1"
  "calls example_single = []"
  "analyzer example_single = None"
  "output_dir example_single = ''analysis_output''"
  by (simp_all add: example_single_def add_files_def initial_gui_def update_status_def)

lemma example_single_initialized:
  "fst (initialize_analyzer example_engine example_single)"
  "simulations_count example_engine (snd (initialize_analyzer example_engine example_single)) =
     Returns 1"
proof -
  have b: "batch_outcomes example_engine [] (loaded_files example_single) = Some [True]"
    by (simp add: example_single_fields)
  have l: "length (file_tree example_single) = length (loaded_files example_single)"
    "loaded_files example_single \<noteq> []"
    "analyzer_new example_engine (output_dir example_single) = Returns []"
    by (simp_all add: example_single_fields)
  from initialize_analyzer_loads_all(4)[OF l b]
  show "fst (initialize_analyzer example_engine example_single)"
    by (simp add: example_single_fields)
  from initialize_analyzer_loads_all(2)[OF l b]
  show "simulations_count example_engine
          (snd (initialize_analyzer example_engine example_single)) = Returns 1"
    by (simp add: example_single_fields simulations_count_def)
qed








lemma raising_engine_simps [simp]:
  "analyzer_new raising_engine d = Returns []"
  "analyzer_load_simulation raising_engine an p =
     (if p = ''bad.json'' then (Raises, an) else (Returns True, an @ [p]))"
  "analyzer_simulations raising_engine an = length an"
  by (simp_all add: raising_engine_def example_engine_def)

lemma example_files_rows:
  "file_tree example_files =
     [\<lparr>row_text = ''a.json'', size_col = SizeKB 2048, status_col = Ready\<rparr>,
      \<lparr>row_text = ''bad.json'', size_col = SizeKB 2048, status_col = Ready\<rparr>,
      \<lparr>row_text = ''c.json'', size_col = SizeKB 2048, status_col = Ready\<rparr>]"
  by (simp add: example_files_def add_files_def initial_gui_def update_status_def
      basename_def get_file_size_def example_environment_def)

lemma load_raise_ends_loop:
  assumes "analyzer s = Some an" "analyzer_load_simulation eng an file_path = (Raises, an')"
  shows "load_files_loop eng ((file_path, item) # rest) (s, loaded_count, failed_files) =
           (False,
            (tree_set item Loading s)\<lparr>analyzer := Some an',
               calls := calls s @ [Call_load_simulation an file_path]\<rparr>,
            loaded_count, failed_files)"
  using assms by (simp add: call_engine_def)

text \<open>
  C4, as the claim states it, fails: a load that raises ends the batch. With three
  files, the second of which makes \<open>load_simulation\<close> raise, the loop stops at the second:
  its row stays at \<open>Loading\<close>, the third file is never loaded and its row stays at
  \<open>Ready\<close>, and \<open>initialize_analyzer\<close> returns \<open>False\<close>.
\<close>

theorem batch_load_aborted_by_raise:
  "fst (load_files_loop raising_engine
          (zip (loaded_files example_files) [0..<length (file_tree example_files)])
          (example_files\<lparr>analyzer := Some []\<rparr>, 0, [])) = False \<and>
   map status_col (file_tree (fst (snd (load_files_loop raising_engine
          (zip (loaded_files example_files) [0..<length (file_tree example_files)])
          (example_files\<lparr>analyzer := Some []\<rparr>, 0, []))))) = [Loaded, Loading, Ready] \<and>
   calls (fst (snd (load_files_loop raising_engine
          (zip (loaded_files example_files) [0..<length (file_tree example_files)])
          (example_files\<lparr>analyzer := Some []\<rparr>, 0, [])))) =
     [Call_load_simulation [] ''a.json'', Call_load_simulation [''a.json''] ''bad.json''] \<and>
   fst (initialize_analyzer raising_engine example_files) = False \<and>
   map status_col (file_tree (snd (initialize_analyzer raising_engine example_files))) =
     [Loaded, Loading, Ready] \<and>
   calls (snd (initialize_analyzer raising_engine example_files)) =
     [Call_MANETAnalyzer ''analysis_output'',
      Call_load_simulation [] ''a.json'', Call_load_simulation [''a.json''] ''bad.json'']"
proof -
  have z: "zip (loaded_files example_files) [0..<length (file_tree example_files)] =
             [(''a.json'', 0), (''bad.json'', Suc 0), (''c.json'', Suc (Suc 0))]"
    by (simp add: example_files_fields upt_rec)
  have l: "load_files_loop raising_engine
             [(''a.json'', 0), (''bad.json'', Suc 0), (''c.json'', Suc (Suc 0))] (s, 0, []) =
           (False,
            s\<lparr>file_tree := (file_tree s)[0 := (file_tree s ! 0)\<lparr>status_col := Loaded\<rparr>,
                                          Suc 0 := (file_tree s ! Suc 0)\<lparr>status_col := Loading\<rparr>],
              analyzer := Some [''a.json''],
              calls := calls s @ [Call_load_simulation [] ''a.json'',
                                  Call_load_simulation [''a.json''] ''bad.json'']\<rparr>, Suc 0, [])"
    if "analyzer s = Some []" "length (file_tree s) = 3" for s :: "string list gui"
    using that by (simp add: call_engine_def tree_set_def list_update_swap)
  let ?s1 = "((update_status ''Initializing analyzer...'' ''working'' example_files)
                \<lparr>calls := calls example_files @
                   [Call_MANETAnalyzer (output_dir example_files)]\<rparr>)\<lparr>analyzer := Some []\<rparr>"
  have l0: "load_files_loop raising_engine
             [(''a.json'', 0), (''bad.json'', Suc 0), (''c.json'', Suc (Suc 0))]
             (example_files\<lparr>analyzer := Some []\<rparr>, 0, []) =
           (False,
            (example_files\<lparr>analyzer := Some []\<rparr>)
              \<lparr>file_tree :=
                 [\<lparr>row_text = ''a.json'', size_col = SizeKB 2048, status_col = Loaded\<rparr>,
                  \<lparr>row_text = ''bad.json'', size_col = SizeKB 2048, status_col = Loading\<rparr>,
                  \<lparr>row_text = ''c.json'', size_col = SizeKB 2048, status_col = Ready\<rparr>],
               analyzer := Some [''a.json''],
               calls := [Call_load_simulation [] ''a.json'',
                         Call_load_simulation [''a.json''] ''bad.json'']\<rparr>, Suc 0, [])"
    by (subst l) (simp_all add: example_files_fields example_files_rows)
  have l1: "load_files_loop raising_engine
             [(''a.json'', 0), (''bad.json'', Suc 0), (''c.json'', Suc (Suc 0))] (?s1, 0, []) =
           (False,
            ?s1\<lparr>file_tree :=
                 [\<lparr>row_text = ''a.json'', size_col = SizeKB 2048, status_col = Loaded\<rparr>,
                  \<lparr>row_text = ''bad.json'', size_col = SizeKB 2048, status_col = Loading\<rparr>,
                  \<lparr>row_text = ''c.json'', size_col = SizeKB 2048, status_col = Ready\<rparr>],
               analyzer := Some [''a.json''],
               calls := [Call_MANETAnalyzer ''analysis_output'',
                         Call_load_simulation [] ''a.json'',
                         Call_load_simulation [''a.json''] ''bad.json'']\<rparr>, Suc 0, [])"
    by (subst l) (simp_all add: example_files_fields example_files_rows)
  have n: "loaded_files example_files \<noteq> []" by (simp add: example_files_fields)
  have i: "initialize_analyzer raising_engine example_files =
      (False, initialize_failed
        (?s1\<lparr>file_tree :=
                 [\<lparr>row_text = ''a.json'', size_col = SizeKB 2048, status_col = Loaded\<rparr>,
                  \<lparr>row_text = ''bad.json'', size_col = SizeKB 2048, status_col = Loading\<rparr>,
                  \<lparr>row_text = ''c.json'', size_col = SizeKB 2048, status_col = Ready\<rparr>],
               analyzer := Some [''a.json''],
               calls := [Call_MANETAnalyzer ''analysis_output'',
                         Call_load_simulation [] ''a.json'',
                         Call_load_simulation [''a.json''] ''bad.json'']\<rparr>))"
    unfolding initialize_analyzer_def Let_def z using n
    by (simp add: l1 del: load_files_loop.simps)
  show ?thesis
    unfolding z i l0 by (simp add: initialize_failed_def)
qed

text \<open>
  C4, amended. When every call of \<open>load_simulation\<close> on the batch returns, with success
  or with failure, a failure ends nothing: the loop of \<open>initialize_analyzer\<close> calls it on
  every file in order, marks each row \<open>Loaded\<close> or \<open>Failed\<close>, and ends with
  \<open>loaded_count\<close> and \<open>failed_files\<close> dividing the whole batch between them. A call that
  raises is not recorded as a failure: the loop ends at it, for the handler around it,
  with the row at \<open>Loading\<close> and the files after it untouched.
\<close>

theorem batch_load_continues_past_failures:
  "(length (file_tree s) = length (loaded_files s) \<and> analyzer s = Some an \<and>
    batch_outcomes eng an (loaded_files s) = Some outcomes \<longrightarrow>
      (\<exists>s'. load_files_loop eng (zip (loaded_files s) [0..<length (file_tree s)]) (s, 0, []) =
            (True, s', length (filter id outcomes),
             map (\<lambda>(f, b). basename f)
               (filter (\<lambda>(f, b). \<not> b) (zip (loaded_files s) outcomes))) \<and>
          calls s' = calls s @ load_calls eng an (loaded_files s) \<and>
          map status_col (file_tree s') = map loaded_status outcomes \<and>
          length (filter id outcomes) +
            length (filter (\<lambda>(f, b). \<not> b) (zip (loaded_files s) outcomes)) =
          length (loaded_files s))) \<and>
   (analyzer s = Some an \<and> analyzer_load_simulation eng an file_path = (Raises, an') \<longrightarrow>
      load_files_loop eng ((file_path, item) # rest) (s, loaded_count, failed_files) =
        (False,
         (tree_set item Loading s)\<lparr>analyzer := Some an',
            calls := calls s @ [Call_load_simulation an file_path]\<rparr>,
         loaded_count, failed_files))"
proof (intro conjI impI)
  assume h: "length (file_tree s) = length (loaded_files s) \<and> analyzer s = Some an \<and>
    batch_outcomes eng an (loaded_files s) = Some outcomes"
  then have lb: "length outcomes = length (loaded_files s)"
    by (auto dest: batch_outcomes_length)
  have "length (filter (\<lambda>(f, b). \<not> b) (zip fs bs)) = length (filter Not bs)"
    if "length fs = length bs" for fs :: "string list" and bs
    using that by (induction fs bs rule: list_induct2) simp_all
  from this[of "loaded_files s" outcomes] lb
  have "length (filter id outcomes) +
          length (filter (\<lambda>(f, b). \<not> b) (zip (loaded_files s) outcomes)) =
        length outcomes"
    using sum_length_filter_compl[of id outcomes] by (simp add: comp_def)
  with lb load_files_loop_whole[of s an eng outcomes] h
  show "\<exists>s'. load_files_loop eng (zip (loaded_files s) [0..<length (file_tree s)]) (s, 0, []) =
            (True, s', length (filter id outcomes),
             map (\<lambda>(f, b). basename f)
               (filter (\<lambda>(f, b). \<not> b) (zip (loaded_files s) outcomes))) \<and>
          calls s' = calls s @ load_calls eng an (loaded_files s) \<and>
          map status_col (file_tree s') = map loaded_status outcomes \<and>
          length (filter id outcomes) +
            length (filter (\<lambda>(f, b). \<not> b) (zip (loaded_files s) outcomes)) =
          length (loaded_files s)"
    by auto
next
  assume "analyzer s = Some an \<and> analyzer_load_simulation eng an file_path = (Raises, an')"
  then show "load_files_loop eng ((file_path, item) # rest) (s, loaded_count, failed_files) =
        (False,
         (tree_set item Loading s)\<lparr>analyzer := Some an',
            calls := calls s @ [Call_load_simulation an file_path]\<rparr>,
         loaded_count, failed_files)"
    by (intro load_raise_ends_loop) simp_all
qed

theorem batch_load_continues_past_failures_witness:
  "length (file_tree (example_files\<lparr>analyzer := Some []\<rparr>)) =
     length (loaded_files (example_files\<lparr>analyzer := Some []\<rparr>)) \<and>
   batch_outcomes example_engine [] (loaded_files (example_files\<lparr>analyzer := Some []\<rparr>)) =
     Some [True, False, True] \<and>
   (\<exists>s'. load_files_loop example_engine
            (zip (loaded_files (example_files\<lparr>analyzer := Some []\<rparr>))
               [0..<length (file_tree (example_files\<lparr>analyzer := Some []\<rparr>))])
            (example_files\<lparr>analyzer := Some []\<rparr>, 0, []) = (True, s', 2, [''bad.json'']) \<and>
         map status_col (file_tree s') = [Loaded, Failed, Loaded] \<and>
         calls s' = [Call_load_simulation [] ''a.json'',
                     Call_load_simulation [''a.json''] ''bad.json'',
                     Call_load_simulation [''a.json''] ''c.json'']) \<and>
   analyzer_load_simulation raising_engine [''a.json''] ''bad.json'' = (Raises, [''a.json'']) \<and>
   fst (load_files_loop raising_engine [(''bad.json'', 1), (''c.json'', 2)]
          (example_files\<lparr>analyzer := Some [''a.json'']\<rparr>, 1, [])) = False"
proof -
  let ?s = "example_files\<lparr>analyzer := Some []\<rparr>"
  have h1: "length (file_tree ?s) = length (loaded_files ?s)"
    by (simp add: example_files_fields)
  have h2: "analyzer ?s = Some []" by simp
  have h3: "batch_outcomes example_engine [] (loaded_files ?s) = Some [True, False, True]"
    by (simp add: example_files_fields example_batch)
  have c: "load_calls example_engine [] [''a.json'', ''bad.json'', ''c.json''] =
             [Call_load_simulation [] ''a.json'',
              Call_load_simulation [''a.json''] ''bad.json'',
              Call_load_simulation [''a.json''] ''c.json'']"
    by simp
  have b: "basename ''bad.json'' = ''bad.json''" by (simp add: basename_def)
  have r: "analyzer_load_simulation raising_engine [''a.json''] ''bad.json'' =
             (Raises, [''a.json''])"
    by simp
  have a2: "analyzer (example_files\<lparr>analyzer := Some [''a.json'']\<rparr>) = Some [''a.json'']"
    by simp
  from batch_load_continues_past_failures[where eng = example_engine and s = ?s
      and an = "[]" and outcomes = "[True, False, True]", THEN conjunct1] h1 h2 h3
  have "\<exists>s'. load_files_loop example_engine
            (zip (loaded_files ?s) [0..<length (file_tree ?s)]) (?s, 0, []) =
            (True, s', length (filter id [True, False, True]),
             map (\<lambda>(f, b). basename f)
               (filter (\<lambda>(f, b). \<not> b) (zip (loaded_files ?s) [True, False, True]))) \<and>
          calls s' = calls ?s @ load_calls example_engine [] (loaded_files ?s) \<and>
          map status_col (file_tree s') = map loaded_status [True, False, True] \<and>
          length (filter id [True, False, True]) +
            length (filter (\<lambda>(f, b). \<not> b) (zip (loaded_files ?s) [True, False, True])) =
          length (loaded_files ?s)"
    by blast
  then have A: "\<exists>s'. load_files_loop example_engine
            (zip (loaded_files ?s) [0..<length (file_tree ?s)]) (?s, 0, []) =
            (True, s', 2, [''bad.json'']) \<and>
         map status_col (file_tree s') = [Loaded, Failed, Loaded] \<and>
         calls s' = [Call_load_simulation [] ''a.json'',
                     Call_load_simulation [''a.json''] ''bad.json'',
                     Call_load_simulation [''a.json''] ''c.json'']"
    by (auto simp add: example_files_fields loaded_status_def c b numeral_2_eq_2)
  from batch_load_continues_past_failures[where eng = raising_engine
      and s = "example_files\<lparr>analyzer := Some [''a.json'']\<rparr>" and an = "[''a.json'']"
      and file_path = "''bad.json''" and an' = "[''a.json'']" and item = 1
      and rest = "[(''c.json'', 2)]" and loaded_count = 1 and failed_files = "[]",
      THEN conjunct2] a2 r
  have "load_files_loop raising_engine ((''bad.json'', 1) # [(''c.json'', 2)])
          (example_files\<lparr>analyzer := Some [''a.json'']\<rparr>, 1, []) =
        (False,
         (tree_set 1 Loading (example_files\<lparr>analyzer := Some [''a.json'']\<rparr>))
           \<lparr>analyzer := Some [''a.json''],
            calls := calls (example_files\<lparr>analyzer := Some [''a.json'']\<rparr>) @
                       [Call_load_simulation [''a.json''] ''bad.json'']\<rparr>, 1, [])"
    by blast
  then have B: "fst (load_files_loop raising_engine [(''bad.json'', 1), (''c.json'', 2)]
          (example_files\<lparr>analyzer := Some [''a.json'']\<rparr>, 1, [])) = False"
    by (simp only: fst_conv)
  from h1 h3 A r B show ?thesis by (intro conjI)
qed

section \<open>Properties of the comparison\<close>

lemma compare_insufficient: "length ss < 2 \<Longrightarrow> compare ss = Inl InsufficientData"
  by (simp add: compare_def)

lemma common_metric_has_mean:
  "m \<in> set (common_metrics ss) \<Longrightarrow> s \<in> set ss \<Longrightarrow> \<exists>x. mean_of s m = Some x"
  by (cases ss) (auto simp: common_metrics_def list_all_iff)

lemma means_for_all:
  "\<forall>s \<in> set ss. mean_of s m \<noteq> None \<Longrightarrow>
     length (means_for m ss) = length ss \<and>
     (\<forall>i < length ss. \<exists>x. mean_of (ss ! i) m = Some x \<and>
                            means_for m ss ! i = (summary_label (ss ! i), x))"
proof (induction ss)
  case Nil
  then show ?case by (simp add: means_for_def)
next
  case (Cons s ss)
  then obtain x where x: "mean_of s m = Some x" by auto
  have c: "means_for m (s # ss) = (summary_label s, x) # means_for m ss"
    using x by (simp add: means_for_def List.map_filter_simps)
  from Cons have ih: "length (means_for m ss) = length ss"
    "\<forall>i < length ss. \<exists>x. mean_of (ss ! i) m = Some x \<and>
                            means_for m ss ! i = (summary_label (ss ! i), x)"
    by auto
  show ?case
    unfolding c using ih x by (auto simp: nth_Cons' )
qed

lemma map_of_tabulate:
  "m \<in> set ms \<Longrightarrow> map_of (map (\<lambda>m. (m, f m)) ms) m = Some (f m)"
  by (induction ms) auto

lemma relative_differences_nth:
  assumes "\<forall>s \<in> set ss. mean_of s m \<noteq> None" "ss \<noteq> []"
  shows "\<exists>b. mean_of (hd ss) m = Some b \<and>
           length (relative_differences (compare_metric m ss)) = length ss \<and>
           (\<forall>i < length ss. \<exists>x. mean_of (ss ! i) m = Some x \<and>
              relative_differences (compare_metric m ss) ! i =
                (summary_label (ss ! i), relative_to b x))"
proof -
  from means_for_all[OF assms(1)] have len: "length (means_for m ss) = length ss"
    and nth: "\<forall>i < length ss. \<exists>x. mean_of (ss ! i) m = Some x \<and>
                            means_for m ss ! i = (summary_label (ss ! i), x)"
    by auto
  from assms(2) have pos: "0 < length ss" by simp
  with nth obtain b where b: "mean_of (ss ! 0) m = Some b"
    "means_for m ss ! 0 = (summary_label (ss ! 0), b)"
    by blast
  from len pos obtain p ps where ps: "means_for m ss = p # ps"
    by (cases "means_for m ss") auto
  with b have p: "p = (summary_label (ss ! 0), b)" by simp
  have rd: "relative_differences (compare_metric m ss) =
      map (\<lambda>(l, x). (l, relative_to b x)) (means_for m ss)"
    using ps p by (simp add: compare_metric_def Let_def)
  have hd: "mean_of (hd ss) m = Some b"
    using b(1) assms(2) by (simp add: hd_conv_nth)
  have "\<forall>i < length ss. \<exists>x. mean_of (ss ! i) m = Some x \<and>
              relative_differences (compare_metric m ss) ! i =
                (summary_label (ss ! i), relative_to b x)"
  proof (intro allI impI)
    fix i assume i: "i < length ss"
    with nth obtain x where x: "mean_of (ss ! i) m = Some x"
      "means_for m ss ! i = (summary_label (ss ! i), x)" by blast
    then show "\<exists>x. mean_of (ss ! i) m = Some x \<and>
              relative_differences (compare_metric m ss) ! i =
                (summary_label (ss ! i), relative_to b x)"
      using i len by (simp add: rd)
  qed
  with hd show ?thesis by (auto simp: rd len)
qed

lemma example_summary_mean [simp]:
  "mean_of (example_summary l x) ''throughput'' = Some x"
  "summary_label (example_summary l x) = l"
  "map fst (summary_metrics (example_summary l x)) = [''throughput'']"
  by (simp_all add: example_summary_def mean_of_def)

lemma example_comparison:
  "compare [example_summary ''A'' 10, example_summary ''B'' 20, example_summary ''C'' 15] =
     Inr \<lparr>compared =
            [(''throughput'',
              \<lparr>ranking = [''B'', ''C'', ''A''],
               relative_differences =
                 [(''A'', Percent 0), (''B'', Percent 100), (''C'', Percent 50)]\<rparr>)],
          skipped = []\<rparr>"
  by (simp add: compare_def common_metrics_def compare_metric_def means_for_def
      List.map_filter_simps relative_to_def Let_def)

lemma compare_differences_general:
  assumes n: "2 \<le> length ss"
  shows "\<exists>res. compare ss = Inr res \<and>
         map fst (compared res) = common_metrics ss \<and>
         (\<forall>m \<in> set (common_metrics ss).
            \<exists>c b. map_of (compared res) m = Some c \<and>
                  mean_of (hd ss) m = Some b \<and>
                  length (relative_differences c) = length ss \<and>
                  (\<forall>i < length ss.
                     \<exists>x. mean_of (ss ! i) m = Some x \<and>
                         relative_differences c ! i =
                           (summary_label (ss ! i),
                            if b \<noteq> 0 then Percent ((x - b) / b * 100)
                            else if x > 0 then Plus_infinity
                            else if x < 0 then Minus_infinity
                            else Undefined_difference)))"
proof -
  from n have ne: "ss \<noteq> []" by auto
  let ?res = "\<lparr>compared = map (\<lambda>m. (m, compare_metric m ss)) (common_metrics ss),
             skipped = filter (\<lambda>m. m \<notin> set (common_metrics ss))
                         (remdups (concat (map (\<lambda>s. map fst (summary_metrics s)) ss)))\<rparr>"
  have r: "compare ss = Inr ?res" using n by (simp add: compare_def)
  have k: "map fst (compared ?res) = common_metrics ss" by (simp add: comp_def)
  have d: "\<exists>c b. map_of (compared ?res) m = Some c \<and>
                  mean_of (hd ss) m = Some b \<and>
                  length (relative_differences c) = length ss \<and>
                  (\<forall>i < length ss.
                     \<exists>x. mean_of (ss ! i) m = Some x \<and>
                         relative_differences c ! i =
                           (summary_label (ss ! i),
                            if b \<noteq> 0 then Percent ((x - b) / b * 100)
                            else if x > 0 then Plus_infinity
                            else if x < 0 then Minus_infinity
                            else Undefined_difference))"
    if m: "m \<in> set (common_metrics ss)" for m
  proof -
    from m have all: "\<forall>s \<in> set ss. mean_of s m \<noteq> None"
      using common_metric_has_mean by fastforce
    from relative_differences_nth[OF all ne] obtain b where
      b: "mean_of (hd ss) m = Some b"
      and l: "length (relative_differences (compare_metric m ss)) = length ss"
      and x: "\<forall>i < length ss. \<exists>x. mean_of (ss ! i) m = Some x \<and>
              relative_differences (compare_metric m ss) ! i =
                (summary_label (ss ! i), relative_to b x)"
      by blast
    have c: "map_of (compared ?res) m = Some (compare_metric m ss)"
      using m by (simp add: map_of_tabulate)
    show ?thesis
      using b l x c unfolding relative_to_def by blast
  qed
  from r k d show ?thesis by blast
qed

text \<open>
  C2. For two or more summaries \<open>compare\<close> succeeds, and for every metric common to all
  of them reports, label by label in the order of the summaries, the difference of the
  label's mean from the mean of the first summary, in percent of the latter; when that
  mean is zero the value is plus or minus infinity by the sign of the label's mean, or
  undefined when both are zero, and nothing fails. For \<open>A\<close>, \<open>B\<close>, \<open>C\<close> with throughput
  means 10, 20 and 15 the differences are 0, 100 and 50 percent and the ranking is
  \<open>B\<close>, \<open>C\<close>, \<open>A\<close>.
\<close>

theorem compare_relative_differences:
  "(2 \<le> length ss \<longrightarrow>
      (\<exists>res. compare ss = Inr res \<and>
         map fst (compared res) = common_metrics ss \<and>
         (\<forall>m \<in> set (common_metrics ss).
            \<exists>c b. map_of (compared res) m = Some c \<and>
                  mean_of (hd ss) m = Some b \<and>
                  length (relative_differences c) = length ss \<and>
                  (\<forall>i < length ss.
                     \<exists>x. mean_of (ss ! i) m = Some x \<and>
                         relative_differences c ! i =
                           (summary_label (ss ! i),
                            if b \<noteq> 0 then Percent ((x - b) / b * 100)
                            else if x > 0 then Plus_infinity
                            else if x < 0 then Minus_infinity
                            else Undefined_difference))))) \<and>
   compare [example_summary ''A'' 10, example_summary ''B'' 20, example_summary ''C'' 15] =
     Inr \<lparr>compared =
            [(''throughput'',
              \<lparr>ranking = [''B'', ''C'', ''A''],
               relative_differences =
                 [(''A'', Percent 0), (''B'', Percent 100), (''C'', Percent 50)]\<rparr>)],
          skipped = []\<rparr> \<and>
   relative_differences
     (compare_metric ''throughput'' [example_summary ''Z'' 0, example_summary ''P'' 5,
        example_summary ''N'' (- 5), example_summary ''O'' 0]) =
     [(''Z'', Undefined_difference), (''P'', Plus_infinity), (''N'', Minus_infinity),
      (''O'', Undefined_difference)]"
  apply (intro conjI impI)
  subgoal by (rule compare_differences_general)
  subgoal by (rule example_comparison)
  subgoal
    by (simp add: compare_metric_def means_for_def List.map_filter_simps relative_to_def Let_def)
  done

theorem compare_relative_differences_witness:
  "2 \<le> length [example_summary ''A'' 10, example_summary ''B'' 20] \<and>
   (\<exists>res. compare [example_summary ''A'' 10, example_summary ''B'' 20] = Inr res \<and>
          map fst (compared res) = [''throughput''] \<and>
          (\<exists>c. map_of (compared res) ''throughput'' = Some c \<and>
               relative_differences c ! 1 = (''B'', Percent 100)))"
proof -
  let ?ss = "[example_summary ''A'' 10, example_summary ''B'' 20]"
  have n: "2 \<le> length ?ss" by simp
  have cm: "common_metrics ?ss = [''throughput'']"
    by (simp add: common_metrics_def)
  from compare_relative_differences[where ss = ?ss, THEN conjunct1] n
  obtain res where r: "compare ?ss = Inr res"
    and k: "map fst (compared res) = common_metrics ?ss"
    and d: "\<forall>m \<in> set (common_metrics ?ss).
            \<exists>c b. map_of (compared res) m = Some c \<and>
                  mean_of (hd ?ss) m = Some b \<and>
                  length (relative_differences c) = length ?ss \<and>
                  (\<forall>i < length ?ss.
                     \<exists>x. mean_of (?ss ! i) m = Some x \<and>
                         relative_differences c ! i =
                           (summary_label (?ss ! i),
                            if b \<noteq> 0 then Percent ((x - b) / b * 100)
                            else if x > 0 then Plus_infinity
                            else if x < 0 then Minus_infinity
                            else Undefined_difference))"
    by blast
  from d cm obtain c b where c: "map_of (compared res) ''throughput'' = Some c"
    and b: "mean_of (hd ?ss) ''throughput'' = Some b"
    and x: "\<forall>i < length ?ss.
                     \<exists>x. mean_of (?ss ! i) ''throughput'' = Some x \<and>
                         relative_differences c ! i =
                           (summary_label (?ss ! i),
                            if b \<noteq> 0 then Percent ((x - b) / b * 100)
                            else if x > 0 then Plus_infinity
                            else if x < 0 then Minus_infinity
                            else Undefined_difference)"
    by auto
  from b have b10: "b = 10" by simp
  from x[rule_format, of 1] b10 have "relative_differences c ! 1 = (''B'', Percent 100)"
    by simp
  with r k cm c n show ?thesis by auto
qed

text \<open>
  C3. \<open>compare\<close> fails with \<open>InsufficientData\<close> on fewer than two summaries, on exactly
  one in particular, and the shell checks the number of simulations before it reaches
  the comparison: in every session, action and thread body \<open>compare_simulations\<close> is
  called only on an analyzer that holds at least two simulations, and with fewer the
  shell writes its notice (a log line in the full analysis, a warning dialog for the
  comparison plots) and makes no call.
\<close>

theorem comparison_requires_two_simulations:
  "(length ss < 2 \<longrightarrow> compare ss = Inl InsufficientData) \<and>
   compare [summary] = Inl InsufficientData \<and>
   (\<forall>an. Call_compare_simulations an \<in> set (calls (run_ops eng env ops initial_gui)) \<longrightarrow>
          2 \<le> analyzer_simulations eng an) \<and>
   (\<exists>cs. calls (perform eng a s) = calls s @ cs \<and>
         (\<forall>an. Call_compare_simulations an \<in> set cs \<longrightarrow> 2 \<le> analyzer_simulations eng an)) \<and>
   (\<exists>cs. calls (generate_plots_thread eng s) = calls s @ cs \<and>
         (\<forall>an. Call_compare_simulations an \<in> set cs \<longrightarrow> 2 \<le> analyzer_simulations eng an)) \<and>
   (simulations_count eng s = Returns n \<and> n < 2 \<longrightarrow>
      (\<exists>s'. full_analysis_comparison eng s = Returns s' \<and>
            log_text s' = log_text s @ [''Comparison requires at least 2 simulations''] \<and>
            calls s' = calls s)) \<and>
   (fst (initialize_analyzer eng s) \<and>
    simulations_count eng (snd (initialize_analyzer eng s)) = Returns n \<and> n < 2 \<longrightarrow>
      dialogs (generate_comparison_plots eng s) =
        dialogs (snd (initialize_analyzer eng s)) @
          [(''warning'', ''Warning'', ''Comparison plots require at least 2 simulations.'')] \<and>
      calls (generate_comparison_plots eng s) = calls (snd (initialize_analyzer eng s)))"
proof -
  have 0: "length ss < 2 \<longrightarrow> compare ss = Inl InsufficientData"
    by (simp add: compare_insufficient)
  have 00: "compare [summary] = Inl InsufficientData"
    by (simp add: compare_insufficient)
  have "session_inv eng (run_ops eng env ops initial_gui)"
    by (rule run_ops_inv) (rule initial_gui_inv)
  then have 1: "\<forall>an. Call_compare_simulations an \<in> set (calls (run_ops eng env ops initial_gui)) \<longrightarrow>
          2 \<le> analyzer_simulations eng an"
    by (simp add: session_inv_def compare_ok_iff)
  have 2: "\<exists>cs. calls (perform eng a s) = calls s @ cs \<and>
         (\<forall>an. Call_compare_simulations an \<in> set cs \<longrightarrow> 2 \<le> analyzer_simulations eng an)"
    using perform_extends by (rule extends_compare_ok)
  have 3: "\<exists>cs. calls (generate_plots_thread eng s) = calls s @ cs \<and>
         (\<forall>an. Call_compare_simulations an \<in> set cs \<longrightarrow> 2 \<le> analyzer_simulations eng an)"
    using extends_generate_plots_thread by (rule extends_compare_ok)
  have 4: "simulations_count eng s = Returns n \<and> n < 2 \<longrightarrow>
      (\<exists>s'. full_analysis_comparison eng s = Returns s' \<and>
            log_text s' = log_text s @ [''Comparison requires at least 2 simulations''] \<and>
            calls s' = calls s)"
    by (simp add: full_analysis_comparison_def log_message_def)
  have 5: "fst (initialize_analyzer eng s) \<and>
    simulations_count eng (snd (initialize_analyzer eng s)) = Returns n \<and> n < 2 \<longrightarrow>
      dialogs (generate_comparison_plots eng s) =
        dialogs (snd (initialize_analyzer eng s)) @
          [(''warning'', ''Warning'', ''Comparison plots require at least 2 simulations.'')] \<and>
      calls (generate_comparison_plots eng s) = calls (snd (initialize_analyzer eng s))"
    by (cases "initialize_analyzer eng s")
       (simp add: generate_comparison_plots_def messagebox_def)
  from 0 00 1 2 3 4 5 show ?thesis by (intro conjI)
qed

theorem comparison_requires_two_simulations_witness:
  "length [example_summary ''A'' 10] < 2 \<and>
   compare [example_summary ''A'' 10] = Inl InsufficientData \<and>
   fst (initialize_analyzer example_engine example_single) \<and>
   simulations_count example_engine (snd (initialize_analyzer example_engine example_single)) =
     Returns 1 \<and>
   dialogs (generate_comparison_plots example_engine example_single) =
     dialogs (snd (initialize_analyzer example_engine example_single)) @
       [(''warning'', ''Warning'', ''Comparison plots require at least 2 simulations.'')] \<and>
   calls (generate_comparison_plots example_engine example_single) =
     calls (snd (initialize_analyzer example_engine example_single)) \<and>
   (\<exists>s'. full_analysis_comparison example_engine
            (snd (initialize_analyzer example_engine example_single)) = Returns s' \<and>
         log_text s' =
           log_text (snd (initialize_analyzer example_engine example_single)) @
             [''Comparison requires at least 2 simulations''] \<and>
         calls s' = calls (snd (initialize_analyzer example_engine example_single)))"
proof -
  have l: "length [example_summary ''A'' 10] < 2" by simp
  note T1 = comparison_requires_two_simulations[where eng = example_engine
      and s = example_single and n = 1 and ss = "[example_summary ''A'' 10]"]
  note T2 = comparison_requires_two_simulations[where eng = example_engine
      and s = "snd (initialize_analyzer example_engine example_single)" and n = 1]
  from T1 l have c: "compare [example_summary ''A'' 10] = Inl InsufficientData" by blast
  from T1 example_single_initialized
  have d: "dialogs (generate_comparison_plots example_engine example_single) =
     dialogs (snd (initialize_analyzer example_engine example_single)) @
       [(''warning'', ''Warning'', ''Comparison plots require at least 2 simulations.'')] \<and>
   calls (generate_comparison_plots example_engine example_single) =
     calls (snd (initialize_analyzer example_engine example_single))"
    by simp
  from T2 example_single_initialized
  have f: "\<exists>s'. full_analysis_comparison example_engine
            (snd (initialize_analyzer example_engine example_single)) = Returns s' \<and>
         log_text s' =
           log_text (snd (initialize_analyzer example_engine example_single)) @
             [''Comparison requires at least 2 simulations''] \<and>
         calls s' = calls (snd (initialize_analyzer example_engine example_single))"
    by simp
  from l c example_single_initialized d f show ?thesis by (intro conjI) simp_all
qed

end
